theory Spec2Isabelle
  imports Complex_Main "HOL-Library.Word"
begin

unbundle bit_operations_syntax

section \<open>Python values shared by the modules\<close>

text \<open>
  The exceptions the modelled functions can raise. \<open>ValueError\<close> carries its message,
  because numpy raises the same class for other reasons than \<open>process_frame\<close> does.
  \<open>Cv2Error\<close> is OpenCV's \<open>cv2.error\<close>, \<open>AttributeError\<close> is Python's error for a
  method call on \<open>None\<close>, \<open>TypeError\<close> the one for comparing \<open>None\<close> with a number,
  \<open>ImportError\<close> the one for importing a name that a module does not define, and
  \<open>NameError\<close> the one for using a name that is not bound. The repository defines no
  exception class of its own.
\<close>

datatype error =
  ValueError string | Cv2Error | AttributeError | TypeError | ImportError | NameError

text \<open>
  A numpy floating-point element: a finite value, an infinity or NaN. Arithmetic on
  finite values is exact (rounding and overflow of the binary format are not modelled);
  the non-finite cases follow IEEE 754.
\<close>

datatype np_float = Float real | PosInf | NegInf | NaN

text \<open>
  Rounding to the nearest integer, a tie going to the even one: the rounding of IEEE
  arithmetic, and of OpenCV's \<open>cvRound\<close>.
\<close>

definition round_half_even :: "real \<Rightarrow> int" where
  "round_half_even x =
     (let f = \<lfloor>x\<rfloor>; r = x - of_int f
      in if r < 1 / 2 then f else if 1 / 2 < r then f + 1 else if even f then f else f + 1)"

section \<open>exception.py: files on disk\<close>

text \<open>
  The content of a file: an array stored by \<open>np.save\<close>, the pickled object
  \<open>np.save\<close> stores for \<open>None\<close> (which \<open>np.load\<close> refuses to read), a csv text,
  or an image written by \<open>cv2.imwrite\<close>. Every numpy array (matrix, map, image) has the
  one type \<open>'a\<close>; a value that may be \<open>None\<close> is an \<open>'a option\<close>.
\<close>

datatype 'a disk_file = NpyArray 'a | NpyPickle | CsvText string | ImageFile 'a

text \<open>
  The file system: the files by path, and for each path whether a write to it succeeds
  (its folder exists and may be written).
\<close>

record 'a filesystem =
  files :: "string \<rightharpoonup> 'a disk_file"
  writable :: "string \<Rightarrow> bool"

text \<open>\<open>cv2.imwrite(name, data)\<close>: raises on \<open>None\<close>, writes nothing where it cannot.\<close>

definition cv2_imwrite :: "string \<Rightarrow> 'a option \<Rightarrow> 'a filesystem \<Rightarrow> 'a filesystem" where
  "cv2_imwrite name data fs =
     (case data of
        None \<Rightarrow> fs
      | Some img \<Rightarrow>
          if writable fs name then fs\<lparr>files := (files fs)(name \<mapsto> ImageFile img)\<rparr> else fs)"

text \<open>\<open>np.save(name, data)\<close>, inside \<open>create_file\<close>'s \<open>try\<close>: a failed write changes nothing.\<close>

definition np_save :: "string \<Rightarrow> 'a option \<Rightarrow> 'a filesystem \<Rightarrow> 'a filesystem" where
  "np_save name data fs =
     (if writable fs name
      then fs\<lparr>files := (files fs)(name \<mapsto> (case data of Some a \<Rightarrow> NpyArray a | None \<Rightarrow> NpyPickle))\<rparr>
      else fs)"

text \<open>
  The csv branch: \<open>open(name, 'w')\<close> creates the file, the rows are written until one
  raises. \<open>to_csv\<close> is the text that ends up in the file.
\<close>

definition csv_write ::
  "('a option \<Rightarrow> string) \<Rightarrow> string \<Rightarrow> 'a option \<Rightarrow> 'a filesystem \<Rightarrow> 'a filesystem" where
  "csv_write to_csv name data fs =
     (if writable fs name then fs\<lparr>files := (files fs)(name \<mapsto> CsvText (to_csv data))\<rparr> else fs)"

text \<open>
  \<open>create_file(data, file_name, file_type, folder_name=None)\<close> of exception.py.
  \<open>if folder_name:\<close> is false for \<open>None\<close> and for the empty string. Every exception is
  caught and printed inside, so the function always returns.
\<close>

definition create_file ::
  "('a option \<Rightarrow> string) \<Rightarrow> 'a option \<Rightarrow> string \<Rightarrow> string \<Rightarrow> string option \<Rightarrow>
   'a filesystem \<Rightarrow> 'a filesystem" where
  "create_file to_csv data file_name file_type folder_name fs =
     (let name = (case folder_name of
                    None \<Rightarrow> file_name @ ''.'' @ file_type
                  | Some folder \<Rightarrow>
                      if folder = [] then file_name @ ''.'' @ file_type
                      else folder @ ''/'' @ file_name @ ''.'' @ file_type)
      in if file_type = ''jpg'' \<or> file_type = ''png'' then cv2_imwrite name data fs
         else if file_type = ''npy'' then np_save name data fs
         else if file_type = ''csv'' then csv_write to_csv name data fs
         else fs)"

subsection \<open>The names of the module\<close>

text \<open>
  exception.py defines three functions: \<open>create_folder\<close>, \<open>create_file\<close> and
  \<open>show_image\<close>. \<open>from exception import name\<close> delivers the member of that name and raises
  \<open>ImportError\<close> when the module has none.
\<close>

type_synonym 'a file_writer =
  "'a option \<Rightarrow> string \<Rightarrow> string \<Rightarrow> string option \<Rightarrow> 'a filesystem \<Rightarrow> 'a filesystem"

datatype 'a module_member = Create_folder | Create_file "'a file_writer" | Show_image

definition exception_py :: "('a option \<Rightarrow> string) \<Rightarrow> (string \<times> 'a module_member) list" where
  "exception_py to_csv =
     [(''create_folder'', Create_folder), (''create_file'', Create_file (create_file to_csv)),
      (''show_image'', Show_image)]"

definition import_from :: "(string \<times> 'm) list \<Rightarrow> string \<Rightarrow> error + 'm" where
  "import_from members name =
     (case map_of members name of None \<Rightarrow> Inl ImportError | Some member \<Rightarrow> Inr member)"

text \<open>
  calibration_camera.py and stereo_vision.py start with
  \<open>from exception import file_create\<close>. The name \<open>file_create\<close> of these modules is bound
  to the function the import delivers; it is not bound when the import raises.
\<close>

definition file_create :: "('a option \<Rightarrow> string) \<Rightarrow> 'a file_writer option" where
  "file_create to_csv =
     (case import_from (exception_py to_csv) ''file_create'' of
        Inr (Create_file writer) \<Rightarrow> Some writer
      | _ \<Rightarrow> None)"

text \<open>
  A call \<open>file_create(data, file_name, file_type, folder_name)\<close>, given what the name is
  bound to: \<open>NameError\<close> when it is not bound.
\<close>

definition call_file_create ::
  "'a file_writer option \<Rightarrow> 'a option \<Rightarrow> string \<Rightarrow> string \<Rightarrow> string option \<Rightarrow>
   'a filesystem \<Rightarrow> error + 'a filesystem" where
  "call_file_create binding data file_name file_type folder_name fs =
     (case binding of
        None \<Rightarrow> Inl NameError
      | Some writer \<Rightarrow> Inr (writer data file_name file_type folder_name fs))"

section \<open>calibration_camera.py: StereoCalibration\<close>

text \<open>A dictionary \<open>{"left": ..., "right": ...}\<close>.\<close>

datatype side = Left | Right

record 'a per_side =
  left :: "'a option"
  right :: "'a option"

fun side_name :: "side \<Rightarrow> string" where
  "side_name Left = ''left''"
| "side_name Right = ''right''"

fun get_side :: "'a per_side \<Rightarrow> side \<Rightarrow> 'a option" where
  "get_side d Left = left d"
| "get_side d Right = right d"

fun set_side :: "side \<Rightarrow> 'a \<Rightarrow> 'a per_side \<Rightarrow> 'a per_side" where
  "set_side Left v d = d\<lparr>left := Some v\<rparr>"
| "set_side Right v d = d\<lparr>right := Some v\<rparr>"

text \<open>The attributes of a StereoCalibration object, in the order \<open>__init__\<close> creates them.\<close>

record 'a StereoCalibration =
  cam_mats :: "'a per_side"
  dist_coefs :: "'a per_side"
  rot_mat :: "'a option"
  trans_vec :: "'a option"
  e_mat :: "'a option"
  f_mat :: "'a option"
  rect_trans :: "'a per_side"
  proj_mats :: "'a per_side"
  disp_to_depth_mat :: "'a option"
  valid_boxes :: "'a per_side"
  undistortion_map :: "'a per_side"
  rectification_map :: "'a per_side"

definition no_sides :: "'a per_side" where
  "no_sides = \<lparr>left = None, right = None\<rparr>"

definition StereoCalibration_init :: "'a StereoCalibration" where
  "StereoCalibration_init =
     \<lparr>cam_mats = no_sides, dist_coefs = no_sides, rot_mat = None, trans_vec = None,
      e_mat = None, f_mat = None, rect_trans = no_sides, proj_mats = no_sides,
      disp_to_depth_mat = None, valid_boxes = no_sides, undistortion_map = no_sides,
      rectification_map = no_sides\<rparr>"

text \<open>
  \<open>save_data\<close> and \<open>load_data\<close> walk \<open>self.__dict__\<close>: the keys in creation order, each
  value either a per-side dictionary or a plain attribute.
\<close>

datatype key =
  K_cam_mats | K_dist_coefs | K_rot_mat | K_trans_vec | K_e_mat | K_f_mat | K_rect_trans
  | K_proj_mats | K_disp_to_depth_mat | K_valid_boxes | K_undistortion_map
  | K_rectification_map

definition dict_keys :: "key list" where
  "dict_keys =
     [K_cam_mats, K_dist_coefs, K_rot_mat, K_trans_vec, K_e_mat, K_f_mat, K_rect_trans,
      K_proj_mats, K_disp_to_depth_mat, K_valid_boxes, K_undistortion_map,
      K_rectification_map]"

fun key_name :: "key \<Rightarrow> string" where
  "key_name K_cam_mats = ''cam_mats''"
| "key_name K_dist_coefs = ''dist_coefs''"
| "key_name K_rot_mat = ''rot_mat''"
| "key_name K_trans_vec = ''trans_vec''"
| "key_name K_e_mat = ''e_mat''"
| "key_name K_f_mat = ''f_mat''"
| "key_name K_rect_trans = ''rect_trans''"
| "key_name K_proj_mats = ''proj_mats''"
| "key_name K_disp_to_depth_mat = ''disp_to_depth_mat''"
| "key_name K_valid_boxes = ''valid_boxes''"
| "key_name K_undistortion_map = ''undistortion_map''"
| "key_name K_rectification_map = ''rectification_map''"

datatype 'a attr = Dict "'a per_side" | Plain "'a option"

fun getattr :: "'a StereoCalibration \<Rightarrow> key \<Rightarrow> 'a attr" where
  "getattr c K_cam_mats = Dict (cam_mats c)"
| "getattr c K_dist_coefs = Dict (dist_coefs c)"
| "getattr c K_rot_mat = Plain (rot_mat c)"
| "getattr c K_trans_vec = Plain (trans_vec c)"
| "getattr c K_e_mat = Plain (e_mat c)"
| "getattr c K_f_mat = Plain (f_mat c)"
| "getattr c K_rect_trans = Dict (rect_trans c)"
| "getattr c K_proj_mats = Dict (proj_mats c)"
| "getattr c K_disp_to_depth_mat = Plain (disp_to_depth_mat c)"
| "getattr c K_valid_boxes = Dict (valid_boxes c)"
| "getattr c K_undistortion_map = Dict (undistortion_map c)"
| "getattr c K_rectification_map = Dict (rectification_map c)"

text \<open>
  The assignments of \<open>load_data\<close>: \<open>self.__dict__[key][side] = v\<close> for a dictionary,
  \<open>self.__dict__[key] = v\<close> for a plain attribute.
\<close>

fun set_dict_side :: "key \<Rightarrow> side \<Rightarrow> 'a \<Rightarrow> 'a StereoCalibration \<Rightarrow> 'a StereoCalibration" where
  "set_dict_side K_cam_mats s v c = c\<lparr>cam_mats := set_side s v (cam_mats c)\<rparr>"
| "set_dict_side K_dist_coefs s v c = c\<lparr>dist_coefs := set_side s v (dist_coefs c)\<rparr>"
| "set_dict_side K_rect_trans s v c = c\<lparr>rect_trans := set_side s v (rect_trans c)\<rparr>"
| "set_dict_side K_proj_mats s v c = c\<lparr>proj_mats := set_side s v (proj_mats c)\<rparr>"
| "set_dict_side K_valid_boxes s v c = c\<lparr>valid_boxes := set_side s v (valid_boxes c)\<rparr>"
| "set_dict_side K_undistortion_map s v c =
     c\<lparr>undistortion_map := set_side s v (undistortion_map c)\<rparr>"
| "set_dict_side K_rectification_map s v c =
     c\<lparr>rectification_map := set_side s v (rectification_map c)\<rparr>"
| "set_dict_side _ s v c = c"

fun set_plain :: "key \<Rightarrow> 'a \<Rightarrow> 'a StereoCalibration \<Rightarrow> 'a StereoCalibration" where
  "set_plain K_rot_mat v c = c\<lparr>rot_mat := Some v\<rparr>"
| "set_plain K_trans_vec v c = c\<lparr>trans_vec := Some v\<rparr>"
| "set_plain K_e_mat v c = c\<lparr>e_mat := Some v\<rparr>"
| "set_plain K_f_mat v c = c\<lparr>f_mat := Some v\<rparr>"
| "set_plain K_disp_to_depth_mat v c = c\<lparr>disp_to_depth_mat := Some v\<rparr>"
| "set_plain _ v c = c"

subsection \<open>The slots of an object\<close>

text \<open>
  \<open>save_data\<close> and \<open>load_data\<close> run the same two nested loops over \<open>self.__dict__\<close>.
  A slot is a place they visit, in loop order: a key with a side for a dictionary, a key
  alone for a plain attribute.
\<close>

definition slots :: "'a StereoCalibration \<Rightarrow> (key \<times> side option) list" where
  "slots c =
     concat (map (\<lambda>k. case getattr c k of
                         Dict d \<Rightarrow> [(k, Some Left), (k, Some Right)]
                       | Plain v \<Rightarrow> [(k, None)]) dict_keys)"

fun slot_filename :: "string \<Rightarrow> key \<times> side option \<Rightarrow> string" where
  "slot_filename directory (k, Some s) =
     directory @ ''/'' @ key_name k @ ''_'' @ side_name s @ ''.npy''"
| "slot_filename directory (k, None) = directory @ ''/'' @ key_name k @ ''.npy''"

fun set_slot :: "key \<times> side option \<Rightarrow> 'a \<Rightarrow> 'a StereoCalibration \<Rightarrow> 'a StereoCalibration" where
  "set_slot (k, Some s) v c = set_dict_side k s v c"
| "set_slot (k, None) v c = set_plain k v c"

text \<open>What a slot holds, and the \<open>filename\<close> that \<open>save_data\<close> builds for it.\<close>

fun slot_value :: "'a StereoCalibration \<Rightarrow> key \<times> side option \<Rightarrow> 'a option" where
  "slot_value c (k, Some s) = (case getattr c k of Dict d \<Rightarrow> get_side d s | Plain v \<Rightarrow> None)"
| "slot_value c (k, None) = (case getattr c k of Dict d \<Rightarrow> None | Plain v \<Rightarrow> v)"

fun slot_name :: "key \<times> side option \<Rightarrow> string" where
  "slot_name (k, Some s) = key_name k @ ''_'' @ side_name s"
| "slot_name (k, None) = key_name k"

subsection \<open>save_data\<close>

text \<open>
  One pass of the loop body of \<open>save_data\<close>: two calls of \<open>file_create\<close>, for the npy
  file and for the csv file. The result is the exception raised, if any, and the disk.
\<close>

definition save_item ::
  "'a file_writer option \<Rightarrow> 'a option \<Rightarrow> string \<Rightarrow> 'a filesystem \<Rightarrow>
   error option \<times> 'a filesystem" where
  "save_item binding data filename fs =
     (case call_file_create binding data filename ''npy'' (Some ''data'') fs of
        Inl e \<Rightarrow> (Some e, fs)
      | Inr fs1 \<Rightarrow>
          (case call_file_create binding data filename ''csv'' (Some ''data'') fs1 of
             Inl e \<Rightarrow> (Some e, fs1)
           | Inr fs2 \<Rightarrow> (None, fs2)))"

fun save_slots ::
  "'a file_writer option \<Rightarrow> 'a StereoCalibration \<Rightarrow> (key \<times> side option) list \<Rightarrow>
   'a filesystem \<Rightarrow> error option \<times> 'a filesystem" where
  "save_slots binding c [] fs = (None, fs)"
| "save_slots binding c (sl # sls) fs =
     (case save_item binding (slot_value c sl) (slot_name sl) fs of
        (Some e, fs') \<Rightarrow> (Some e, fs')
      | (None, fs') \<Rightarrow> save_slots binding c sls fs')"

text \<open>
  \<open>save_data()\<close>, given what the name \<open>file_create\<close> is bound to. The loops run inside
  \<open>try\<close>; the \<open>except\<close> clause prints the exception and the method returns. The result
  is the exception caught, if any, and the disk.
\<close>

definition save_data ::
  "'a file_writer option \<Rightarrow> 'a StereoCalibration \<Rightarrow> 'a filesystem \<Rightarrow>
   error option \<times> 'a filesystem" where
  "save_data binding c fs = save_slots binding c (slots c) fs"

subsection \<open>load_data\<close>

text \<open>
  The loop of \<open>load_data\<close>, with the lines it prints. A missing file is reported and
  skipped. \<open>np.load\<close> raises on a file that holds no plain array; the \<open>except\<close> around the
  loop prints the error and the method returns with what was loaded so far.
\<close>

fun load_slots ::
  "'a filesystem \<Rightarrow> string \<Rightarrow> (key \<times> side option) list \<Rightarrow> 'a StereoCalibration \<Rightarrow>
   string list \<Rightarrow> 'a StereoCalibration \<times> string list" where
  "load_slots fs directory [] c out = (c, out @ [''Data loading completed successfully.''])"
| "load_slots fs directory (sl # sls) c out =
     (let filename = slot_filename directory sl in
      case files fs filename of
        None \<Rightarrow> load_slots fs directory sls c (out @ [''File '' @ filename @ '' not found.''])
      | Some (NpyArray v) \<Rightarrow> load_slots fs directory sls (set_slot sl v c) out
      | Some _ \<Rightarrow> (c, out @ [''Error loading data'']))"

definition load_data ::
  "string \<Rightarrow> 'a filesystem \<Rightarrow> 'a StereoCalibration \<Rightarrow> 'a StereoCalibration \<times> string list" where
  "load_data directory fs c = load_slots fs directory (slots c) c []"

subsection \<open>rectify\<close>

text \<open>
  \<open>rectify(frames)\<close>: the left frame first, then the right one; each goes to
  \<open>cv2.remap(src, map1, map2, cv2.INTER_NEAREST)\<close> with the two maps of its side, and the
  first exception leaves the method. \<open>cv2.remap\<close> is a parameter: given a frame and two
  maps, each of which may be \<open>None\<close>, it returns the remapped frame or raises. The method
  tests nothing itself.
\<close>

definition rectify ::
  "('a option \<Rightarrow> 'a option \<Rightarrow> 'a option \<Rightarrow> error + 'a) \<Rightarrow> 'a StereoCalibration \<Rightarrow>
   'a option \<times> 'a option \<Rightarrow> error + 'a list" where
  "rectify remap c frames =
     (case remap (fst frames) (left (undistortion_map c)) (left (rectification_map c)) of
        Inl e \<Rightarrow> Inl e
      | Inr l \<Rightarrow>
          (case remap (snd frames) (right (undistortion_map c)) (right (rectification_map c)) of
             Inl e \<Rightarrow> Inl e
           | Inr r \<Rightarrow> Inr [l, r]))"

text \<open>Every slot of an object holds an array.\<close>

definition populated :: "'a StereoCalibration \<Rightarrow> bool" where
  "populated c = list_all (\<lambda>sl. slot_value c sl \<noteq> None) (slots c)"

text \<open>Every npy file that \<open>save_data\<close> writes for the object can be written.\<close>

definition data_writable :: "'a StereoCalibration \<Rightarrow> 'a filesystem \<Rightarrow> bool" where
  "data_writable c fs = list_all (\<lambda>sl. writable fs (slot_filename ''data'' sl)) (slots c)"

text \<open>
  The object \<open>load_data\<close> builds when every file but \<open>rot_mat.npy\<close> is there; \<open>val\<close>
  gives the array of each file.
\<close>

definition loaded_without_rot_mat :: "(key \<times> side option \<Rightarrow> 'a) \<Rightarrow> 'a StereoCalibration" where
  "loaded_without_rot_mat val =
     \<lparr>cam_mats = \<lparr>left = Some (val (K_cam_mats, Some Left)), right = Some (val (K_cam_mats, Some Right))\<rparr>,
      dist_coefs = \<lparr>left = Some (val (K_dist_coefs, Some Left)), right = Some (val (K_dist_coefs, Some Right))\<rparr>,
      rot_mat = None, trans_vec = Some (val (K_trans_vec, None)), e_mat = Some (val (K_e_mat, None)),
      f_mat = Some (val (K_f_mat, None)),
      rect_trans = \<lparr>left = Some (val (K_rect_trans, Some Left)), right = Some (val (K_rect_trans, Some Right))\<rparr>,
      proj_mats = \<lparr>left = Some (val (K_proj_mats, Some Left)), right = Some (val (K_proj_mats, Some Right))\<rparr>,
      disp_to_depth_mat = Some (val (K_disp_to_depth_mat, None)),
      valid_boxes = \<lparr>left = Some (val (K_valid_boxes, Some Left)), right = Some (val (K_valid_boxes, Some Right))\<rparr>,
      undistortion_map = \<lparr>left = Some (val (K_undistortion_map, Some Left)), right = Some (val (K_undistortion_map, Some Right))\<rparr>,
      rectification_map = \<lparr>left = Some (val (K_rectification_map, Some Left)), right = Some (val (K_rectification_map, Some Right))\<rparr>\<rparr>"

section \<open>calibration_camera.py: Calibrator\<close>

text \<open>
  The OpenCV and numpy primitives the calibrator calls. Each is a parameter of the
  model: what it computes is the library's business, how the program drives it is
  modelled. A primitive that can raise returns \<open>Inl\<close>.
  \<^item> \<open>cvtColor\<close>: \<open>cv2.cvtColor(img, cv2.COLOR_BGR2GRAY)\<close>;
  \<^item> \<open>findChessboardCorners\<close>: the corners, or \<open>None\<close> when \<open>ret\<close> is false;
  \<^item> \<open>drawChessboardCorners\<close>, \<open>cornerSubPix\<close>: the image and the corners after the
    in-place update;
  \<^item> \<open>reshape\<close>: \<open>corners.reshape(-1, 2)\<close>;
  \<^item> \<open>stereoCalibrate\<close>: the eight results the program keeps (the slice \<open>[1:]\<close> drops
    the residual);
  \<^item> \<open>stereoRectify\<close>: its seven results;
  \<^item> \<open>initUndistortRectifyMap\<close>: the two maps.
\<close>

record 'a cv2 =
  cvtColor :: "'a \<Rightarrow> 'a"
  findChessboardCorners :: "'a \<Rightarrow> int \<times> int \<Rightarrow> 'a option"
  drawChessboardCorners :: "'a \<Rightarrow> int \<times> int \<Rightarrow> 'a \<Rightarrow> 'a"
  cornerSubPix :: "'a \<Rightarrow> 'a \<Rightarrow> 'a"
  reshape :: "'a \<Rightarrow> 'a"
  stereoCalibrate ::
    "'a list \<Rightarrow> 'a list \<Rightarrow> 'a list \<Rightarrow> int \<times> int \<Rightarrow>
     error + ('a \<times> 'a \<times> 'a \<times> 'a \<times> 'a \<times> 'a \<times> 'a \<times> 'a)"
  stereoRectify ::
    "'a \<Rightarrow> 'a \<Rightarrow> 'a \<Rightarrow> 'a \<Rightarrow> int \<times> int \<Rightarrow> 'a \<Rightarrow> 'a \<Rightarrow>
     error + ('a \<times> 'a \<times> 'a \<times> 'a \<times> 'a \<times> 'a \<times> 'a)"
  initUndistortRectifyMap ::
    "'a \<Rightarrow> 'a \<Rightarrow> 'a \<Rightarrow> 'a \<Rightarrow> int \<times> int \<Rightarrow> error + ('a \<times> 'a)"

text \<open>
  The attributes of a Calibrator. \<open>corner_coordinates\<close> is the array \<open>__init__\<close> builds
  from \<open>row\<close>, \<open>column\<close> and \<open>square_size\<close>; \<open>image_points\<close> is the dictionary of the
  two lists.
\<close>

record 'a Calibrator =
  image_count :: nat
  row :: int
  column :: int
  square_size :: real
  image_size :: "int \<times> int"
  corner_coordinates :: 'a
  object_points :: "'a list"
  image_points_left :: "'a list"
  image_points_right :: "'a list"

text \<open>\<open>str(n)\<close> for a natural number, and \<open>s.zfill(width)\<close>.\<close>

definition digit_char :: "nat \<Rightarrow> char" where
  "digit_char d = ''0123456789'' ! d"

fun str_nat :: "nat \<Rightarrow> string" where
  "str_nat n =
     (if n < 10 then [digit_char n] else str_nat (n div 10) @ [digit_char (n mod 10)])"

declare str_nat.simps [simp del]

definition zfill :: "nat \<Rightarrow> string \<Rightarrow> string" where
  "zfill width s = replicate (width - length s) CHR ''0'' @ s"

text \<open>\<open>cv2.imread(name, 1)\<close>: the image, or \<open>None\<close> when the file holds none.\<close>

definition cv2_imread :: "'a filesystem \<Rightarrow> string \<Rightarrow> 'a option" where
  "cv2_imread fs name = (case files fs name of Some (ImageFile img) \<Rightarrow> Some img | _ \<Rightarrow> None)"

definition isfile :: "'a filesystem \<Rightarrow> string \<Rightarrow> bool" where
  "isfile fs name = (files fs name \<noteq> None)"

text \<open>
  The body of the loop of \<open>corner_detect\<close> for one image. \<open>cv2.cvtColor\<close> raises
  \<open>cv2.error\<close> on an image that \<open>imread\<close> could not read. When the corners are found,
  \<open>file_create\<close> is called for the annotated image, \<open>corner/<side><nn>corn.png\<close>. When
  they are not, \<open>corners\<close> is \<open>None\<close> and \<open>corners.reshape\<close> raises \<open>AttributeError\<close>.
  \<open>binding\<close> is what the name \<open>file_create\<close> is bound to. The result is the outcome and
  the file system as the call leaves it.
\<close>

definition detect_side ::
  "'a file_writer option \<Rightarrow> 'a cv2 \<Rightarrow> 'a Calibrator \<Rightarrow> side \<Rightarrow> 'a option \<Rightarrow>
   'a filesystem \<Rightarrow> (error + 'a Calibrator) \<times> 'a filesystem" where
  "detect_side binding lib cal s im fs =
     (case im of
        None \<Rightarrow> (Inl Cv2Error, fs)
      | Some img \<Rightarrow>
          (let gray = cvtColor lib img in
           case findChessboardCorners lib gray (row cal, column cal) of
             None \<Rightarrow> (Inl AttributeError, fs)
           | Some found \<Rightarrow>
               (let drawn = drawChessboardCorners lib img (column cal, row cal) found;
                    corners = cornerSubPix lib gray found;
                    name = ''corner/'' @ side_name s @ zfill 2 (str_nat (image_count cal + 1))
                             @ ''corn''
                in case call_file_create binding (Some drawn) name ''png'' None fs of
                     Inl e \<Rightarrow> (Inl e, fs)
                   | Inr fs' \<Rightarrow>
                       (let pts = reshape lib corners
                        in (Inr (case s of
                                   Left \<Rightarrow>
                                     cal\<lparr>image_points_left := image_points_left cal @ [pts]\<rparr>
                                 | Right \<Rightarrow>
                                     cal\<lparr>image_points_right := image_points_right cal @ [pts]\<rparr>),
                            fs')))))"

text \<open>\<open>corner_detect(image_pair)\<close>: the left image, then the right one.\<close>

definition corner_detect ::
  "'a file_writer option \<Rightarrow> 'a cv2 \<Rightarrow> 'a Calibrator \<Rightarrow> 'a option \<times> 'a option \<Rightarrow>
   'a filesystem \<Rightarrow> (error + 'a Calibrator) \<times> 'a filesystem" where
  "corner_detect binding lib cal image_pair fs =
     (let cal0 = cal\<lparr>object_points := object_points cal @ [corner_coordinates cal]\<rparr> in
      case detect_side binding lib cal0 Left (fst image_pair) fs of
        (Inl e, fs1) \<Rightarrow> (Inl e, fs1)
      | (Inr cal1, fs1) \<Rightarrow>
          (case detect_side binding lib cal1 Right (snd image_pair) fs1 of
             (Inl e, fs2) \<Rightarrow> (Inl e, fs2)
           | (Inr cal2, fs2) \<Rightarrow> (Inr (cal2\<lparr>image_count := image_count cal2 + 1\<rparr>), fs2)))"

text \<open>
  \<open>calibrate_camera()\<close>: the stereo solve, the rectification transforms, the two pairs
  of maps. The results are stored as they come back; an exception of a primitive leaves
  the method.
\<close>

definition calibrate_camera :: "'a cv2 \<Rightarrow> 'a Calibrator \<Rightarrow> error + 'a StereoCalibration" where
  "calibrate_camera lib cal =
     (case stereoCalibrate lib (object_points cal) (image_points_left cal)
             (image_points_right cal) (image_size cal) of
        Inl e \<Rightarrow> Inl e
      | Inr (cam_l, dist_l, cam_r, dist_r, r, t, e, f) \<Rightarrow>
          (case stereoRectify lib cam_l dist_l cam_r dist_r (image_size cal) r t of
             Inl e \<Rightarrow> Inl e
           | Inr (rect_l, rect_r, proj_l, proj_r, q, box_l, box_r) \<Rightarrow>
               (case initUndistortRectifyMap lib cam_l dist_l rect_l proj_l (image_size cal) of
                  Inl e \<Rightarrow> Inl e
                | Inr (und_l, rec_l) \<Rightarrow>
                    (case initUndistortRectifyMap lib cam_r dist_r rect_r proj_r
                            (image_size cal) of
                       Inl e \<Rightarrow> Inl e
                     | Inr (und_r, rec_r) \<Rightarrow>
                         Inr \<lparr>cam_mats = \<lparr>left = Some cam_l, right = Some cam_r\<rparr>,
                              dist_coefs = \<lparr>left = Some dist_l, right = Some dist_r\<rparr>,
                              rot_mat = Some r, trans_vec = Some t, e_mat = Some e,
                              f_mat = Some f,
                              rect_trans = \<lparr>left = Some rect_l, right = Some rect_r\<rparr>,
                              proj_mats = \<lparr>left = Some proj_l, right = Some proj_r\<rparr>,
                              disp_to_depth_mat = Some q,
                              valid_boxes = \<lparr>left = Some box_l, right = Some box_r\<rparr>,
                              undistortion_map = \<lparr>left = Some und_l, right = Some und_r\<rparr>,
                              rectification_map = \<lparr>left = Some rec_l, right = Some rec_r\<rparr>\<rparr>))))"

text \<open>
  The reading loop of \<open>calibration_process\<close>: \<open>remaining\<close> passes are left,
  \<open>photo_counter\<close> is the counter before the pass.
\<close>

fun import_pairs ::
  "'a file_writer option \<Rightarrow> 'a cv2 \<Rightarrow> string \<Rightarrow> nat \<Rightarrow> nat \<Rightarrow> 'a Calibrator \<Rightarrow>
   'a filesystem \<Rightarrow> (error + 'a Calibrator) \<times> 'a filesystem" where
  "import_pairs binding lib image_folder 0 photo_counter cal fs = (Inr cal, fs)"
| "import_pairs binding lib image_folder (Suc remaining) photo_counter cal fs =
     (let n = photo_counter + 1;
          left_name = image_folder @ ''/left'' @ zfill 2 (str_nat n) @ ''.jpg'';
          right_name = image_folder @ ''/right'' @ zfill 2 (str_nat n) @ ''.jpg''
      in if isfile fs left_name \<and> isfile fs right_name
         then (case corner_detect binding lib cal
                       (cv2_imread fs left_name, cv2_imread fs right_name) fs of
                 (Inl e, fs') \<Rightarrow> (Inl e, fs')
               | (Inr cal', fs') \<Rightarrow> import_pairs binding lib image_folder remaining n cal' fs')
         else import_pairs binding lib image_folder remaining n cal fs)"

text \<open>
  \<open>calibration_process(nbr_photo, image_folder)\<close>. The loop
  \<open>while photo_counter != nbr_photo\<close> counts up from 0, so it never ends for a negative
  \<open>nbr_photo\<close>: the result is \<open>None\<close> then. Otherwise the images are read, the cameras are
  calibrated and \<open>save_data\<close> is called on the result. \<open>binding\<close> is what the name
  \<open>file_create\<close> is bound to.
\<close>

definition calibration_process ::
  "'a file_writer option \<Rightarrow> 'a cv2 \<Rightarrow> 'a Calibrator \<Rightarrow> int \<Rightarrow> string \<Rightarrow> 'a filesystem \<Rightarrow>
   ((error + 'a StereoCalibration) \<times> 'a filesystem) option" where
  "calibration_process binding lib cal nbr_photo image_folder fs =
     (if nbr_photo < 0 then None
      else Some (case import_pairs binding lib image_folder (nat nbr_photo) 0 cal fs of
                   (Inl e, fs1) \<Rightarrow> (Inl e, fs1)
                 | (Inr cal1, fs1) \<Rightarrow>
                     (case calibrate_camera lib cal1 of
                        Inl e \<Rightarrow> (Inl e, fs1)
                      | Inr calib \<Rightarrow> (Inr calib, snd (save_data binding calib fs1)))))"

section \<open>stereo_vision.py: depth from disparity\<close>

text \<open>
  The attributes of a StereoVision object that \<open>depth_calcul\<close> reads and writes. The
  disparity is what \<open>depth_map_calcul\<close> stores: the matcher's 16-bit integers divided by
  16, negative values set to 0, hence finite numbers, modelled as reals, row by row. It is
  \<open>None\<close> until the first disparity map is computed.
\<close>

record StereoVision =
  focal_length :: real
  baseline :: real
  disparity :: "real list list option"
  depth :: "real list list option"

text \<open>
  \<open>depth_calcul()\<close>: a field of zeros of the disparity's shape, overwritten by
  \<open>focal_length * baseline / disparity\<close> where the mask \<open>disparity > 0\<close> holds.
  On \<open>None\<close> the comparison \<open>None > 0\<close> raises \<open>TypeError\<close>.
\<close>

definition depth_calcul :: "StereoVision \<Rightarrow> error + StereoVision" where
  "depth_calcul sv =
     (case disparity sv of
        None \<Rightarrow> Inl TypeError
      | Some disp \<Rightarrow>
          Inr (sv\<lparr>depth :=
                 Some (map (map (\<lambda>d. if d > 0 then focal_length sv * baseline sv / d else 0))
                         disp)\<rparr>))"

section \<open>stereo_vision.py: the capture and display processes\<close>

text \<open>
  \<open>capture_and_compute\<close> and \<open>depth_map_display\<close> run as two processes that share a
  queue and the event \<open>stop_event\<close>. The model interleaves them: a schedule names, step by
  step, which process runs next. One step is one access to the shared queue or event.
  An item of the queue is a pair of frames (numbered in the order of capture) or the pair
  \<open>(None, None)\<close>.
\<close>

datatype item = Frames nat | Sentinel

text \<open>
  Where \<open>capture_and_compute\<close> stands: before the test \<open>not self.stop_event.is_set()\<close>;
  inside the loop body, before \<open>queue.put\<close>; after the loop, before
  \<open>queue.put((None, None))\<close>; returned.
\<close>

datatype producer_pc = P_test | P_body | P_sentinel | P_done

text \<open>
  Where \<open>depth_map_display\<close> stands: before the test of the event in the \<open>while\<close>
  condition; before the test \<open>queue.empty()\<close> of that condition (reached only when the
  event is set); before the \<open>if not queue.empty()\<close> of the body; before \<open>queue.get()\<close>;
  before \<open>cv2.waitKey\<close>; returned; left by an exception.
\<close>

datatype consumer_pc = C_test_stop | C_test_empty | C_if | C_get | C_key | C_done | C_raised error

record pipeline =
  stop_event :: bool
  queue :: "item list"
  producer :: producer_pc
  consumer :: consumer_pc
  produced :: nat
  displayed :: "nat list"

definition pipeline_init :: pipeline where
  "pipeline_init =
     \<lparr>stop_event = False, queue = [], producer = P_test, consumer = C_test_stop,
      produced = 0, displayed = []\<rparr>"

text \<open>One step of \<open>capture_and_compute\<close>; \<open>None\<close> when it has returned.\<close>

definition producer_step :: "pipeline \<Rightarrow> pipeline option" where
  "producer_step s =
     (case producer s of
        P_test \<Rightarrow> Some (s\<lparr>producer := (if stop_event s then P_sentinel else P_body)\<rparr>)
      | P_body \<Rightarrow>
          Some (s\<lparr>queue := queue s @ [Frames (produced s)], produced := produced s + 1,
                  producer := P_test\<rparr>)
      | P_sentinel \<Rightarrow> Some (s\<lparr>queue := queue s @ [Sentinel], producer := P_done\<rparr>)
      | P_done \<Rightarrow> None)"

text \<open>
  One step of \<open>depth_map_display\<close>; \<open>key\<close> is what \<open>cv2.waitKey(1)\<close> returns when the step
  is the key read. \<open>queue.get()\<close> blocks on an empty queue (the step is not enabled).
  The method has no test for \<open>(None, None)\<close>: the item goes to \<open>cv2.applyColorMap\<close>,
  which raises \<open>cv2.error\<close> on \<open>None\<close>.
\<close>

definition consumer_step :: "char option \<Rightarrow> pipeline \<Rightarrow> pipeline option" where
  "consumer_step key s =
     (case consumer s of
        C_test_stop \<Rightarrow> Some (s\<lparr>consumer := (if stop_event s then C_test_empty else C_if)\<rparr>)
      | C_test_empty \<Rightarrow> Some (s\<lparr>consumer := (if queue s = [] then C_done else C_if)\<rparr>)
      | C_if \<Rightarrow> Some (s\<lparr>consumer := (if queue s = [] then C_test_stop else C_get)\<rparr>)
      | C_get \<Rightarrow>
          (case queue s of
             [] \<Rightarrow> None
           | Frames n # rest \<Rightarrow>
               Some (s\<lparr>queue := rest, displayed := displayed s @ [n], consumer := C_key\<rparr>)
           | Sentinel # rest \<Rightarrow> Some (s\<lparr>queue := rest, consumer := C_raised Cv2Error\<rparr>))
      | C_key \<Rightarrow>
          Some (s\<lparr>stop_event := (if key = Some CHR ''q'' then True else stop_event s),
                  consumer := C_test_stop\<rparr>)
      | C_done \<Rightarrow> None
      | C_raised e \<Rightarrow> None)"

text \<open>
  The steps of a schedule: a step of the producer, a step of the consumer, or the event
  being set from outside (the interrupt handler of \<open>process_and_display\<close>).
\<close>

datatype action = Producer | Consumer "char option" | SetStop

fun step :: "action \<Rightarrow> pipeline \<Rightarrow> pipeline option" where
  "step Producer s = producer_step s"
| "step (Consumer key) s = consumer_step key s"
| "step SetStop s = Some (s\<lparr>stop_event := True\<rparr>)"

fun run :: "action list \<Rightarrow> pipeline \<Rightarrow> pipeline option" where
  "run [] s = Some s"
| "run (a # as) s = (case step a s of None \<Rightarrow> None | Some s' \<Rightarrow> run as s')"

section \<open>depth_traitement.py: DepthMapProcessor\<close>

text \<open>
  An 8-bit image is a list of rows of bytes, a floating-point field a list of rows of
  reals. The OpenCV primitives that work pixel by pixel are written out as the library
  documents them:
  \<^item> \<open>cv2.inRange(src, lowerb, upperb)\<close> is 255 where \<open>lowerb \<le> src \<le> upperb\<close> and 0
    elsewhere;
  \<^item> \<open>cv2.bitwise_and(src1, src2, mask=mask)\<close> is \<open>src1 & src2\<close> where the mask is not
    zero, and 0 elsewhere (the destination is new);
  \<^item> \<open>cv2.calcHist([image], [0], None, [256], [0, 256])\<close> counts the pixels of each
    value;
  \<^item> \<open>cv2.mean(src, mask=mask)[0]\<close> is the mean of the pixels whose mask is not zero,
    and 0 when there is none.
\<close>

definition cv2_inRange :: "8 word list list \<Rightarrow> int \<Rightarrow> int \<Rightarrow> 8 word list list" where
  "cv2_inRange src lowerb upperb =
     map (map (\<lambda>v. if lowerb \<le> uint v \<and> uint v \<le> upperb then 255 else 0)) src"

definition cv2_bitwise_and ::
  "8 word list list \<Rightarrow> 8 word list list \<Rightarrow> 8 word list list \<Rightarrow> 8 word list list" where
  "cv2_bitwise_and src1 src2 msk =
     map (\<lambda>(r1, r2, rm). map (\<lambda>(a, b, m). if m \<noteq> 0 then a AND b else 0) (zip r1 (zip r2 rm)))
       (zip src1 (zip src2 msk))"

definition calculate_histogram :: "8 word list list \<Rightarrow> int list" where
  "calculate_histogram img =
     map (\<lambda>k. int (length (filter (\<lambda>v. unat v = k) (concat img)))) [0..<256]"

definition count_non_zero_pixels_from_histogram :: "int list \<Rightarrow> int" where
  "count_non_zero_pixels_from_histogram hist = sum_list (drop 1 hist)"

definition masked_values :: "real list list \<Rightarrow> 8 word list list \<Rightarrow> real list" where
  "masked_values src msk =
     concat (map (\<lambda>(r, rm). map fst (filter (\<lambda>(v, m). m \<noteq> 0) (zip r rm))) (zip src msk))"

definition cv2_mean :: "real list list \<Rightarrow> 8 word list list \<Rightarrow> real" where
  "cv2_mean src msk =
     (let vs = masked_values src msk
      in if vs = [] then 0 else sum_list vs / real (length vs))"

text \<open>
  The primitives that work on regions are parameters: dilation and erosion (image,
  kernel size, iterations), the contours of an image (\<open>cv2.Canny(image, 50, 150)\<close>
  followed by \<open>cv2.findContours\<close> with \<open>RETR_EXTERNAL\<close> and \<open>CHAIN_APPROX_SIMPLE\<close>), the
  area of a contour, and the pixels (row, column) that
  \<open>cv2.drawContours(mask, [contour], -1, 255, -1)\<close> paints: the contour filled.
\<close>

record 'c contour_lib =
  cv2_dilate :: "8 word list list \<Rightarrow> int \<Rightarrow> int \<Rightarrow> 8 word list list"
  cv2_erode :: "8 word list list \<Rightarrow> int \<Rightarrow> int \<Rightarrow> 8 word list list"
  find_contours :: "8 word list list \<Rightarrow> 'c list"
  contourArea :: "'c \<Rightarrow> real"
  filled :: "'c \<Rightarrow> nat \<Rightarrow> nat \<Rightarrow> bool"

record 'c DepthMapProcessor =
  depth_map_original :: "real list list"
  depth_map_normalized :: "8 word list list"
  pixel_min :: int
  min_contour_area :: real
  thresholds :: "int list"
  kernel_size :: int
  dilate_iterations :: int
  erode_iterations :: int
  segmented_image :: "8 word list list option"
  contours :: "'c list"
  mean_amplitudes :: "nat \<rightharpoonup> real"

definition apply_morphological_operations ::
  "'c contour_lib \<Rightarrow> 'c DepthMapProcessor \<Rightarrow> 8 word list list \<Rightarrow> 8 word list list" where
  "apply_morphological_operations lib p img =
     (let dilated_image = cv2_dilate lib img (kernel_size p) (dilate_iterations p);
          eroded_image = cv2_erode lib dilated_image (kernel_size p) (erode_iterations p)
      in cv2_dilate lib eroded_image (kernel_size p) (dilate_iterations p))"

text \<open>
  The mask of \<open>calculate_mean_amplitude\<close>: zeros of the shape of the original depth
  map, 255 where the filled contour is painted.
\<close>

definition contour_mask :: "'c contour_lib \<Rightarrow> real list list \<Rightarrow> 'c \<Rightarrow> 8 word list list" where
  "contour_mask lib field contour =
     map (\<lambda>(i, r). map (\<lambda>j. if filled lib contour i j then 255 else 0) [0..<length r])
       (enumerate 0 field)"

text \<open>
  \<open>calculate_mean_amplitude(contours)\<close>: the dictionary starts empty; a contour whose
  area reaches \<open>min_contour_area\<close> gets, under its index, the mean of the original depth
  map over its mask.
\<close>

definition calculate_mean_amplitude ::
  "'c contour_lib \<Rightarrow> 'c DepthMapProcessor \<Rightarrow> 'c list \<Rightarrow> (nat \<rightharpoonup> real)" where
  "calculate_mean_amplitude lib p cs =
     fold (\<lambda>(i, contour) amps.
             if contourArea lib contour \<ge> min_contour_area p
             then amps(i \<mapsto> cv2_mean (depth_map_original p)
                              (contour_mask lib (depth_map_original p) contour))
             else amps)
       (enumerate 0 cs) Map.empty"

text \<open>
  \<open>find_and_draw_contours(processed_image)\<close> stores the contours it finds. Of the image
  it draws, the model keeps the labels: the index and the mean amplitude written next to
  each contour that is large enough and whose stored mean amplitude is positive.
\<close>

definition find_and_draw_contours ::
  "'c contour_lib \<Rightarrow> 'c DepthMapProcessor \<Rightarrow> 8 word list list \<Rightarrow>
   (nat \<times> real) list \<times> 'c DepthMapProcessor" where
  "find_and_draw_contours lib p processed_image =
     (let cs = find_contours lib processed_image;
          labels =
            concat (map (\<lambda>(i, contour).
                      if contourArea lib contour \<ge> min_contour_area p
                      then (let mean_amplitude =
                                  (case mean_amplitudes p i of Some m \<Rightarrow> m | None \<Rightarrow> 0)
                            in if mean_amplitude > 0 then [(i, mean_amplitude)] else [])
                      else [])
                    (enumerate 0 cs))
      in (labels, p\<lparr>contours := cs\<rparr>))"

text \<open>
  \<open>process_contour()\<close>: cleanup of the segment, contours, mean amplitudes, contours
  again for the picture that is shown and saved. \<open>cv2.dilate\<close> raises on \<open>None\<close>.
\<close>

definition process_contour ::
  "'c contour_lib \<Rightarrow> 'c DepthMapProcessor \<Rightarrow> error + 'c DepthMapProcessor" where
  "process_contour lib p =
     (case segmented_image p of
        None \<Rightarrow> Inl Cv2Error
      | Some seg \<Rightarrow>
          (let processed_image = apply_morphological_operations lib p seg;
               p1 = snd (find_and_draw_contours lib p processed_image);
               p2 = p1\<lparr>mean_amplitudes := calculate_mean_amplitude lib p1 (contours p1)\<rparr>
           in Inr (snd (find_and_draw_contours lib p2 processed_image))))"

text \<open>
  The segment of one pair of thresholds, as the loop body of \<open>process_disparity_image\<close>
  computes it: the mask of \<open>inRange\<close>, then the normalized map under that mask.
\<close>

definition segment_mask :: "8 word list list \<Rightarrow> int \<Rightarrow> int \<Rightarrow> 8 word list list" where
  "segment_mask img lower_thresh upper_thresh = cv2_inRange img lower_thresh upper_thresh"

definition segment :: "8 word list list \<Rightarrow> int \<Rightarrow> int \<Rightarrow> 8 word list list" where
  "segment img lower_thresh upper_thresh =
     cv2_bitwise_and img img (segment_mask img lower_thresh upper_thresh)"

text \<open>
  The two lines \<open>process_disparity_image\<close> prints: segment number, the two thresholds,
  the number of non-zero pixels.
\<close>

datatype report = Accepted nat int int int | Rejected nat int int int

text \<open>
  The loop of \<open>process_disparity_image\<close> over the indices \<open>range(len(thresholds) - 1)\<close>.
\<close>

fun process_segments ::
  "'c contour_lib \<Rightarrow> nat list \<Rightarrow> 'c DepthMapProcessor \<Rightarrow> report list \<Rightarrow>
   error + ('c DepthMapProcessor \<times> report list)" where
  "process_segments lib [] p out = Inr (p, out)"
| "process_segments lib (i # rest) p out =
     (let lower_thresh = thresholds p ! i;
          upper_thresh = thresholds p ! (i + 1);
          p1 = p\<lparr>segmented_image :=
                  Some (segment (depth_map_normalized p) lower_thresh upper_thresh)\<rparr>;
          hist = calculate_histogram (segment (depth_map_normalized p) lower_thresh upper_thresh);
          non_zero_count = count_non_zero_pixels_from_histogram hist
      in if non_zero_count \<ge> pixel_min p
         then (case process_contour lib p1 of
                 Inl e \<Rightarrow> Inl e
               | Inr p2 \<Rightarrow>
                   process_segments lib rest p2
                     (out @ [Accepted (i + 1) lower_thresh upper_thresh non_zero_count]))
         else process_segments lib rest p1
                (out @ [Rejected (i + 1) lower_thresh upper_thresh non_zero_count]))"

definition process_disparity_image ::
  "'c contour_lib \<Rightarrow> 'c DepthMapProcessor \<Rightarrow> error + ('c DepthMapProcessor \<times> report list)" where
  "process_disparity_image lib p =
     process_segments lib [0..<length (thresholds p) - 1] p []"

section \<open>tof_sensor.py: process_frame\<close>

text \<open>
  The numpy operations of \<open>process_frame\<close> on one element. \<open>np.nan_to_num\<close> replaces
  NaN by 0 and an infinity by the largest finite value of its sign (the buffers are
  32-bit floats). Dividing by zero gives an infinity or NaN, as numpy does with a
  warning. \<open>np.clip\<close> keeps NaN. The cast to \<open>uint8\<close> drops the fraction; on NaN and the
  infinities the cast is not defined by numpy and gives 0 on the usual platforms.
\<close>

definition float32_max :: real where
  "float32_max = (2 ^ 24 - 1) * 2 ^ 104"

fun nan_to_num :: "np_float \<Rightarrow> np_float" where
  "nan_to_num (Float x) = Float x"
| "nan_to_num NaN = Float 0"
| "nan_to_num PosInf = Float float32_max"
| "nan_to_num NegInf = Float (- float32_max)"

fun np_divide :: "np_float \<Rightarrow> real \<Rightarrow> np_float" where
  "np_divide (Float x) m =
     (if m \<noteq> 0 then Float (x / m) else if x > 0 then PosInf else if x < 0 then NegInf else NaN)"
| "np_divide PosInf m = (if m < 0 then NegInf else PosInf)"
| "np_divide NegInf m = (if m < 0 then PosInf else NegInf)"
| "np_divide NaN m = NaN"

fun one_minus :: "np_float \<Rightarrow> np_float" where
  "one_minus (Float x) = Float (1 - x)"
| "one_minus PosInf = NegInf"
| "one_minus NegInf = PosInf"
| "one_minus NaN = NaN"

fun times_255 :: "np_float \<Rightarrow> np_float" where
  "times_255 (Float x) = Float (x * 255)"
| "times_255 v = v"

fun np_clip :: "np_float \<Rightarrow> real \<Rightarrow> real \<Rightarrow> np_float" where
  "np_clip (Float x) lo hi = Float (min (max x lo) hi)"
| "np_clip PosInf lo hi = Float hi"
| "np_clip NegInf lo hi = Float lo"
| "np_clip NaN lo hi = NaN"

definition trunc_toward_zero :: "real \<Rightarrow> int" where
  "trunc_toward_zero x = (if 0 \<le> x then \<lfloor>x\<rfloor> else \<lceil>x\<rceil>)"

fun astype_uint8 :: "np_float \<Rightarrow> 8 word" where
  "astype_uint8 (Float x) = word_of_int (trunc_toward_zero x)"
| "astype_uint8 v = 0"

text \<open>\<open>np.where(amplitude <= 7, 0, 255)\<close>; a comparison with NaN is false.\<close>

fun amplitude_threshold :: "np_float \<Rightarrow> np_float" where
  "amplitude_threshold (Float a) = (if a \<le> 7 then Float 0 else Float 255)"
| "amplitude_threshold NegInf = Float 0"
| "amplitude_threshold v = Float 255"

text \<open>
  A buffer is an array, given by its elements in row-major order. \<open>a & b\<close> on two arrays
  of one dimension: element by element when the lengths agree, an array of one element
  is broadcast, and numpy raises \<open>ValueError\<close> otherwise.
\<close>

definition np_bitwise_and :: "8 word list \<Rightarrow> 8 word list \<Rightarrow> error + 8 word list" where
  "np_bitwise_and xs ys =
     (if length xs = length ys then Inr (map (\<lambda>(x, y). x AND y) (zip xs ys))
      else if length xs = 1 then Inr (map (\<lambda>y. hd xs AND y) ys)
      else if length ys = 1 then Inr (map (\<lambda>x. x AND hd ys) xs)
      else Inl (ValueError ''operands could not be broadcast together''))"

text \<open>The attributes of a TofCamera that \<open>process_frame\<close> reads and writes.\<close>

record TofCamera =
  max_distance :: real
  depth_buf :: "np_float list option"
  amplitude_buf :: "np_float list option"
  depth_normalized :: "8 word list option"

definition normalize_depth :: "real \<Rightarrow> np_float \<Rightarrow> 8 word" where
  "normalize_depth m d = astype_uint8 (np_clip (times_255 (one_minus (np_divide d m))) 0 255)"

text \<open>
  \<open>process_frame()\<close>: the outcome (the exception raised or the frame returned) and the
  object as the call leaves it.
\<close>

definition process_frame :: "TofCamera \<Rightarrow> (error + 8 word list) \<times> TofCamera" where
  "process_frame cam =
     (case (depth_buf cam, amplitude_buf cam) of
        (Some depth0, Some amplitude0) \<Rightarrow>
          (let depth1 = map nan_to_num depth0;
               amplitude1 = map amplitude_threshold amplitude0;
               normalized_depth = map (normalize_depth (max_distance cam)) depth1;
               cam' = cam\<lparr>depth_buf := Some depth1, amplitude_buf := Some amplitude1,
                          depth_normalized := Some normalized_depth\<rparr>
           in (np_bitwise_and normalized_depth (map astype_uint8 amplitude1), cam'))
      | _ \<Rightarrow> (Inl (ValueError ''Depth buffer and amplitude buffer must not be None.''), cam))"

section \<open>Example inputs\<close>

text \<open>
  Concrete inputs for the examples that follow the properties. Arrays are lists of rows
  of numpy floats.
\<close>

definition example_calibration :: "np_float list list StereoCalibration" where
  "example_calibration =
     \<lparr>cam_mats = \<lparr>left = Some [[Float 1]], right = Some [[Float 2]]\<rparr>,
      dist_coefs = \<lparr>left = Some [[Float 3]], right = Some [[Float 4]]\<rparr>,
      rot_mat = Some [[Float 5]], trans_vec = Some [[Float 6]], e_mat = Some [[Float 7]],
      f_mat = Some [[Float 8]],
      rect_trans = \<lparr>left = Some [[Float 9]], right = Some [[Float 10]]\<rparr>,
      proj_mats = \<lparr>left = Some [[Float 11]], right = Some [[Float 12]]\<rparr>,
      disp_to_depth_mat = Some [[Float 13]],
      valid_boxes = \<lparr>left = Some [[Float 14]], right = Some [[Float 15]]\<rparr>,
      undistortion_map = \<lparr>left = Some [[Float 0]], right = Some [[Float 0]]\<rparr>,
      rectification_map = \<lparr>left = Some [[Float 0]], right = Some [[Float 0]]\<rparr>\<rparr>"

text \<open>An empty disk on which every write succeeds, and a csv writer that writes nothing.\<close>

definition empty_disk :: "np_float list list filesystem" where
  "empty_disk = \<lparr>files = Map.empty, writable = (\<lambda>name. True)\<rparr>"

definition no_csv :: "np_float list list option \<Rightarrow> string" where
  "no_csv data = []"


text \<open>A ToF frame of one pixel at distance 0, and a camera that has no depth buffer yet.\<close>

definition tof_near :: TofCamera where
  "tof_near =
     \<lparr>max_distance = 4, depth_buf = Some [Float 0], amplitude_buf = Some [Float 100],
      depth_normalized = None\<rparr>"


text \<open>Stereo objects with one row of disparities: the default optics, and a focal length of 0.\<close>

definition stereo_example :: StereoVision where
  "stereo_example =
     \<lparr>focal_length = 1300, baseline = 0.06, disparity = Some [[2, 0]], depth = None\<rparr>"

definition stereo_zero_focal :: StereoVision where
  "stereo_zero_focal =
     \<lparr>focal_length = 0, baseline = 0.06, disparity = Some [[1]], depth = None\<rparr>"

text \<open>
  A contour library whose contours are rectangles (top row, left column, bottom row,
  right column, the last two exclusive), which finds one fixed rectangle and leaves
  images unchanged in dilation and erosion; and a 4 by 4 field with a flat blob of value
  180 in that rectangle, with the thresholds of the program.
\<close>

definition rectangles :: "(nat \<times> nat \<times> nat \<times> nat) contour_lib" where
  "rectangles =
     \<lparr>cv2_dilate = (\<lambda>img k n. img), cv2_erode = (\<lambda>img k n. img),
      find_contours = (\<lambda>img. [(1, 1, 3, 3)]),
      contourArea = (\<lambda>(t, l, b, r). real ((b - t) * (r - l))),
      filled = (\<lambda>(t, l, b, r) i j. t \<le> i \<and> i < b \<and> l \<le> j \<and> j < r)\<rparr>"

definition blob_processor :: "(nat \<times> nat \<times> nat \<times> nat) DepthMapProcessor" where
  "blob_processor =
     \<lparr>depth_map_original = [[0, 0, 0, 0], [0, 180, 180, 0], [0, 180, 180, 0], [0, 0, 0, 0]],
      depth_map_normalized = [[0, 0, 0, 0], [0, 180, 180, 0], [0, 180, 180, 0], [0, 0, 0, 0]],
      pixel_min = 4, min_contour_area = 4, thresholds = [50, 100, 200, 255],
      kernel_size = 5, dilate_iterations = 1, erode_iterations = 2,
      segmented_image = Some [[0, 0, 0, 0], [0, 180, 180, 0], [0, 180, 180, 0], [0, 0, 0, 0]],
      contours = [], mean_amplitudes = Map.empty\<rparr>"

text \<open>A normalized map of one pixel whose value is the threshold 100.\<close>

definition boundary_processor :: "(nat \<times> nat \<times> nat \<times> nat) DepthMapProcessor" where
  "boundary_processor =
     \<lparr>depth_map_original = [[100]], depth_map_normalized = [[100]], pixel_min = 20000,
      min_contour_area = 10, thresholds = [50, 100, 200, 255], kernel_size = 5,
      dilate_iterations = 1, erode_iterations = 2, segmented_image = None, contours = [],
      mean_amplitudes = Map.empty\<rparr>"

text \<open>
  Three schedules of the two processes. In the first the producer puts three pairs, the
  consumer shows them, the event is set from outside, the consumer runs its loop test
  and the producer then leaves its loop. In the second the key \<open>q\<close> is pressed on the
  first picture while the producer is inside its second pass. In the third the producer
  has finished before the consumer starts.
\<close>

definition schedule_drained :: "action list" where
  "schedule_drained =
     [Producer, Producer, Producer, Producer, Producer, Producer,
      Consumer None, Consumer None, Consumer None, Consumer None,
      Consumer None, Consumer None, Consumer None, Consumer None,
      Consumer None, Consumer None, Consumer None, Consumer None,
      SetStop, Consumer None, Consumer None, Producer, Producer]"

definition schedule_in_flight :: "action list" where
  "schedule_in_flight =
     [Producer, Producer, Producer,
      Consumer None, Consumer None, Consumer None, Consumer (Some CHR ''q''),
      Consumer None, Consumer None,
      Producer, Producer, Producer]"

definition schedule_producer_first :: "action list" where
  "schedule_producer_first =
     [Producer, Producer, SetStop, Producer, Producer,
      Consumer None, Consumer None, Consumer None, Consumer None, Consumer None,
      Consumer None, Consumer None, Consumer None, Consumer None]"

text \<open>
  An instance of \<open>cv2.remap\<close> with \<open>INTER_NEAREST\<close> for the examples, on float maps of one
  channel. OpenCV raises \<open>cv2.error\<close> when the source or a map is \<open>None\<close> or empty, or
  when the two maps differ in size. Otherwise the result has the size of the maps; each
  of its pixels is the pixel of the source at the rounded coordinates the maps give, and
  0 when they fall outside the source.
\<close>

fun pixel_at :: "np_float list list \<Rightarrow> np_float \<Rightarrow> np_float \<Rightarrow> np_float" where
  "pixel_at src (Float x) (Float y) =
     (let i = round_half_even y; j = round_half_even x
      in if 0 \<le> i \<and> nat i < length src \<and> 0 \<le> j \<and> nat j < length (src ! nat i)
         then src ! nat i ! nat j else Float 0)"
| "pixel_at src x y = Float 0"

definition nearest_remap ::
  "np_float list list option \<Rightarrow> np_float list list option \<Rightarrow> np_float list list option \<Rightarrow>
   error + np_float list list" where
  "nearest_remap src mapx mapy =
     (case (src, mapx, mapy) of
        (Some im, Some mx, Some my) \<Rightarrow>
          if concat im = [] \<or> concat mx = [] \<or> concat my = [] \<or> map length mx \<noteq> map length my
          then Inl Cv2Error
          else Inr (map (\<lambda>(rx, ry). map (\<lambda>(x, y). pixel_at im x y) (zip rx ry)) (zip mx my))
      | _ \<Rightarrow> Inl Cv2Error)"

text \<open>
  A disk whose folder \<open>data\<close> holds the npy file of every slot of the example
  calibration but \<open>rot_mat.npy\<close>.
\<close>

definition disk_without_rot_mat :: "np_float list list filesystem" where
  "disk_without_rot_mat =
     \<lparr>files = map_of (map (\<lambda>sl. (slot_filename ''data'' sl,
                                  NpyArray (the (slot_value example_calibration sl))))
                        (filter (\<lambda>sl. sl \<noteq> (K_rot_mat, None)) (slots example_calibration))),
      writable = (\<lambda>name. True)\<rparr>"

text \<open>
  A library for the examples. Its stereo solve raises \<open>cv2.error\<close> without points and
  otherwise returns a rotation matrix of NaN beside finite matrices. Its \<open>stereoRectify\<close>
  raises, as OpenCV's does, when the translation is zero or not finite; it does not look
  at the entries of the rotation.
\<close>

fun is_finite :: "np_float \<Rightarrow> bool" where
  "is_finite (Float x) = True"
| "is_finite x = False"

definition nan_matrix :: "np_float list list" where
  "nan_matrix = [[NaN, NaN, NaN], [NaN, NaN, NaN], [NaN, NaN, NaN]]"

definition identity_matrix :: "np_float list list" where
  "identity_matrix =
     [[Float 1, Float 0, Float 0], [Float 0, Float 1, Float 0], [Float 0, Float 0, Float 1]]"

definition nan_rotation_cv2 :: "np_float list list cv2" where
  "nan_rotation_cv2 =
     \<lparr>cvtColor = (\<lambda>img. img),
      findChessboardCorners = (\<lambda>img size. Some [[Float 0, Float 0]]),
      drawChessboardCorners = (\<lambda>img size corners. img),
      cornerSubPix = (\<lambda>img corners. corners),
      reshape = (\<lambda>corners. corners),
      stereoCalibrate = (\<lambda>obj l r size.
        if obj = [] \<or> l = [] \<or> r = [] then Inl Cv2Error
        else Inr (identity_matrix, [[Float 0]], identity_matrix, [[Float 0]], nan_matrix,
                  [[Float 1], [Float 0], [Float 0]], identity_matrix, identity_matrix)),
      stereoRectify = (\<lambda>cam_l dist_l cam_r dist_r size r t.
        if list_all is_finite (concat t) \<and> list_ex (\<lambda>x. x \<noteq> Float 0) (concat t)
        then Inr (identity_matrix, identity_matrix, identity_matrix, identity_matrix,
                  identity_matrix, [[Float 0]], [[Float 0]])
        else Inl Cv2Error),
      initUndistortRectifyMap = (\<lambda>cam dist rect proj size. Inr ([[Float 0]], [[Float 0]]))\<rparr>"

text \<open>The same library with a solve that raises.\<close>

definition failing_cv2 :: "np_float list list cv2" where
  "failing_cv2 = nan_rotation_cv2\<lparr>stereoCalibrate := (\<lambda>obj l r size. Inl Cv2Error)\<rparr>"

text \<open>
  A calibrator that has read no image yet, one that holds the points of one pair, and a
  disk that holds one pair of photos.
\<close>

definition example_calibrator :: "np_float list list Calibrator" where
  "example_calibrator =
     \<lparr>image_count = 0, row = 6, column = 9, square_size = 2.4, image_size = (840, 820),
      corner_coordinates = [[Float 0, Float 0, Float 0]], object_points = [],
      image_points_left = [], image_points_right = []\<rparr>"

definition calibrator_with_points :: "np_float list list Calibrator" where
  "calibrator_with_points =
     example_calibrator\<lparr>image_count := 1,
       object_points := [[[Float 0, Float 0, Float 0]]],
       image_points_left := [[[Float 0, Float 0]]],
       image_points_right := [[[Float 0, Float 0]]]\<rparr>"

definition photo_disk :: "np_float list list filesystem" where
  "photo_disk =
     \<lparr>files = [''image/left01.jpg'' \<mapsto> ImageFile [[Float 0]],
               ''image/right01.jpg'' \<mapsto> ImageFile [[Float 0]]],
      writable = (\<lambda>name. True)\<rparr>"

section \<open>The formulas of the specification\<close>





text \<open>
  The values of a field at the pixels inside a filled contour, row by row: what the
  specification takes the mean of.
\<close>

definition inside_values :: "'c contour_lib \<Rightarrow> real list list \<Rightarrow> 'c \<Rightarrow> real list" where
  "inside_values lib field contour =
     concat (map (\<lambda>(i, r). map snd (filter (\<lambda>(j, v). filled lib contour i j) (enumerate 0 r)))
               (enumerate 0 field))"

section \<open>Properties of save_data and load_data\<close>

lemma import_file_create: "import_from (exception_py to_csv) ''file_create'' = Inl ImportError"
  by (simp add: import_from_def exception_py_def)

lemma file_create_unbound: "file_create to_csv = None"
  by (simp add: file_create_def import_file_create)

lemma save_item_unbound: "save_item None data filename fs = (Some NameError, fs)"
  by (simp add: save_item_def call_file_create_def)

lemma save_data_unbound: "save_data None c fs = (Some NameError, fs)"
  by (simp add: save_data_def slots_def dict_keys_def save_item_unbound)

lemma save_item_bound:
  "save_item (Some writer) data filename fs =
     (None, writer data filename ''csv'' (Some ''data'')
              (writer data filename ''npy'' (Some ''data'') fs))"
  by (simp add: save_item_def call_file_create_def)

lemma save_slots_bound:
  "save_slots (Some writer) c sls fs =
     (None, fold (\<lambda>sl disk. writer (slot_value c sl) (slot_name sl) ''csv'' (Some ''data'')
                               (writer (slot_value c sl) (slot_name sl) ''npy'' (Some ''data'') disk))
              sls fs)"
  by (induction sls arbitrary: fs) (simp_all add: save_item_bound)

lemma save_data_bound:
  "snd (save_data (Some writer) c fs) =
     fold (\<lambda>sl disk. writer (slot_value c sl) (slot_name sl) ''csv'' (Some ''data'')
                        (writer (slot_value c sl) (slot_name sl) ''npy'' (Some ''data'') disk))
       (slots c) fs"
  by (simp add: save_data_def save_slots_bound)

lemma files_create_file:
  "files (create_file to_csv data fn ''csv'' (Some ''data'')
            (create_file to_csv data fn ''npy'' (Some ''data'') fs)) p =
     (if p = ''data/'' @ fn @ ''.csv'' \<and> writable fs p then Some (CsvText (to_csv data))
      else if p = ''data/'' @ fn @ ''.npy'' \<and> writable fs p
           then Some (case data of Some a \<Rightarrow> NpyArray a | None \<Rightarrow> NpyPickle)
      else files fs p)"
  by (auto simp add: create_file_def np_save_def csv_write_def Let_def)

lemma writable_create_file:
  "writable (create_file to_csv data fn ''csv'' (Some ''data'')
               (create_file to_csv data fn ''npy'' (Some ''data'') fs)) = writable fs"
  by (auto simp add: create_file_def np_save_def csv_write_def Let_def)

lemma slots_eq:
  "slots c =
     [(K_cam_mats, Some Left), (K_cam_mats, Some Right), (K_dist_coefs, Some Left),
      (K_dist_coefs, Some Right), (K_rot_mat, None), (K_trans_vec, None), (K_e_mat, None),
      (K_f_mat, None), (K_rect_trans, Some Left), (K_rect_trans, Some Right),
      (K_proj_mats, Some Left), (K_proj_mats, Some Right), (K_disp_to_depth_mat, None),
      (K_valid_boxes, Some Left), (K_valid_boxes, Some Right),
      (K_undistortion_map, Some Left), (K_undistortion_map, Some Right),
      (K_rectification_map, Some Left), (K_rectification_map, Some Right)]"
  by (simp add: slots_def dict_keys_def)

text \<open>
  With the name \<open>file_create\<close> bound to \<open>create_file\<close> of exception.py, the npy file of a
  slot holds, after \<open>save_data\<close>, what the slot held.
\<close>

lemma files_save_data:
  assumes "writable fs (slot_filename ''data'' sl)" and "sl \<in> set (slots c)"
  shows "files (snd (save_data (Some (create_file to_csv)) c fs)) (slot_filename ''data'' sl) =
           Some (case slot_value c sl of Some a \<Rightarrow> NpyArray a | None \<Rightarrow> NpyPickle)"
  using assms(2) unfolding slots_eq
  apply (simp only: set_simps insert_iff empty_iff)
  apply (elim disjE FalseE)
  using assms(1)
  apply (simp_all add: save_data_bound slots_eq files_create_file writable_create_file)
  done

text \<open>When every file is there and holds an array, the loop of \<open>load_data\<close> sets every slot.\<close>

lemma load_slots_present:
  assumes "\<forall>sl \<in> set sls. files fs (slot_filename directory sl) = Some (NpyArray (val sl))"
  shows "load_slots fs directory sls c out =
           (fold (\<lambda>sl. set_slot sl (val sl)) sls c,
            out @ [''Data loading completed successfully.''])"
  using assms by (induction sls arbitrary: c out) simp_all

text \<open>When no file is there, the loop reports every slot and sets none.\<close>

lemma load_slots_absent:
  assumes "\<forall>sl \<in> set sls. files fs (slot_filename directory sl) = None"
  shows "load_slots fs directory sls c out =
           (c, out @ map (\<lambda>sl. ''File '' @ slot_filename directory sl @ '' not found.'') sls
                 @ [''Data loading completed successfully.''])"
  using assms by (induction sls arbitrary: out) (simp_all add: Let_def)

lemma populated_record:
  assumes "populated c"
  shows "fold (\<lambda>sl. set_slot sl (the (slot_value c sl))) (slots d) StereoCalibration_init = c"
proof -
  obtain a1 a2 a3 a4 a5 a6 a7 a8 a9 a10 a11 a12 where c:
    "c = \<lparr>cam_mats = a1, dist_coefs = a2, rot_mat = a3, trans_vec = a4, e_mat = a5,
          f_mat = a6, rect_trans = a7, proj_mats = a8, disp_to_depth_mat = a9,
          valid_boxes = a10, undistortion_map = a11, rectification_map = a12\<rparr>"
    by (cases c) auto
  show ?thesis
    using assms unfolding c slots_eq
    by (cases a1; cases a2; cases a7; cases a8; cases a10; cases a11; cases a12)
       (auto simp add: populated_def slots_eq StereoCalibration_init_def no_sides_def)
qed

lemma populated_example: "populated example_calibration"
  by (simp add: populated_def slots_eq example_calibration_def)

lemma data_writable_empty_disk: "data_writable c empty_disk"
  by (simp add: data_writable_def slots_eq empty_disk_def)

text \<open>
  What the method is written to do. With the name \<open>file_create\<close> bound to \<open>create_file\<close>
  of exception.py, and the npy files writable (the folder \<open>data\<close> exists), \<open>save_data\<close>
  followed by \<open>load_data\<close> from \<open>data\<close> into a fresh object gives back every array of a
  fully populated object and prints only the closing line. Values are compared as
  arrays: \<open>np.save\<close> stores a tuple, such as a box of \<open>valid_boxes\<close>, as an array.
\<close>

lemma round_trip_with_create_file:
  assumes "populated c" and "data_writable c fs"
  shows "load_data ''data'' (snd (save_data (Some (create_file to_csv)) c fs))
           StereoCalibration_init =
         (c, [''Data loading completed successfully.''])"
proof -
  have sl: "slots (StereoCalibration_init :: 'a StereoCalibration) = slots c"
    by (simp add: slots_eq)
  have "\<forall>sl \<in> set (slots c).
          files (snd (save_data (Some (create_file to_csv)) c fs)) (slot_filename ''data'' sl) =
            Some (NpyArray (the (slot_value c sl)))"
  proof
    fix sl
    assume m: "sl \<in> set (slots c)"
    with assms have w: "writable fs (slot_filename ''data'' sl)"
      and v: "slot_value c sl \<noteq> None"
      by (simp_all add: populated_def data_writable_def list_all_iff)
    from files_save_data [OF w m, of to_csv] v
    show "files (snd (save_data (Some (create_file to_csv)) c fs)) (slot_filename ''data'' sl) =
            Some (NpyArray (the (slot_value c sl)))"
      by auto
  qed
  from load_slots_present [OF this] populated_record [OF assms(1)]
  show ?thesis
    by (simp add: load_data_def sl)
qed

text \<open>
  C4. The code as it is. exception.py has no member \<open>file_create\<close>: the import of that
  name at the head of calibration_camera.py raises \<open>ImportError\<close> and leaves the name
  unbound. The first call in \<open>save_data\<close> then raises \<open>NameError\<close>, which the \<open>except\<close>
  clause of the method catches: for the fully populated example object and an empty,
  writable disk nothing is written, and \<open>load_data\<close> into a fresh object reports every
  file as not found and leaves the object empty, which is not the object saved.
\<close>

theorem save_data_writes_nothing:
  "import_from (exception_py no_csv) ''file_create'' = Inl ImportError \<and>
   file_create no_csv = None \<and>
   populated example_calibration \<and>
   save_data (file_create no_csv) example_calibration empty_disk =
     (Some NameError, empty_disk) \<and>
   load_data ''data'' (snd (save_data (file_create no_csv) example_calibration empty_disk))
       StereoCalibration_init =
     (StereoCalibration_init,
      map (\<lambda>sl. ''File '' @ slot_filename ''data'' sl @ '' not found.'')
          (slots example_calibration)
      @ [''Data loading completed successfully.'']) \<and>
   (StereoCalibration_init :: np_float list list StereoCalibration) \<noteq> example_calibration"
proof -
  have "\<forall>sl \<in> set (slots (StereoCalibration_init :: np_float list list StereoCalibration)).
          files empty_disk (slot_filename ''data'' sl) = None"
    by (simp add: empty_disk_def)
  from load_slots_absent [OF this]
  have "load_data ''data'' empty_disk StereoCalibration_init =
          (StereoCalibration_init,
           map (\<lambda>sl. ''File '' @ slot_filename ''data'' sl @ '' not found.'')
               (slots example_calibration)
           @ [''Data loading completed successfully.''])"
    by (simp add: load_data_def slots_eq)
  moreover have "(StereoCalibration_init :: np_float list list StereoCalibration) \<noteq>
                   example_calibration"
    by (simp add: StereoCalibration_init_def example_calibration_def)
  ultimately show ?thesis
    by (simp add: import_file_create file_create_unbound save_data_unbound populated_example)
qed

section \<open>Properties of depth_calcul\<close>

text \<open>
  C3, as the code has it. When \<open>focal_length * baseline\<close> is not zero, the depth field
  has the shape of the disparity field, a pixel of it is non-zero exactly where the
  disparity is positive, there \<open>depth * disparity = focal_length * baseline\<close>, and it is
  zero wherever the disparity is not positive. (Numbers are reals: the rounding of the
  division is not modelled.)
\<close>

theorem depth_calcul_pixel:
  assumes "disparity sv = Some disp" and "focal_length sv * baseline sv \<noteq> 0"
    and "r < length disp" and "c < length (disp ! r)"
  shows "\<exists>sv' z. depth_calcul sv = Inr sv' \<and> depth sv' = Some z \<and>
           map length z = map length disp \<and>
           (z ! r ! c \<noteq> 0 \<longleftrightarrow> disp ! r ! c > 0) \<and>
           (disp ! r ! c > 0 \<longrightarrow> z ! r ! c * (disp ! r ! c) = focal_length sv * baseline sv) \<and>
           (disp ! r ! c \<le> 0 \<longrightarrow> z ! r ! c = 0)"
  using assms by (auto simp add: depth_calcul_def comp_def)

theorem depth_calcul_pixel_witness:
  "focal_length stereo_example * baseline stereo_example \<noteq> 0 \<and>
   (\<exists>sv' z. depth_calcul stereo_example = Inr sv' \<and> depth sv' = Some z \<and>
             z ! 0 ! 0 = 39 \<and> z ! 0 ! 1 = 0)"
  using depth_calcul_pixel [of stereo_example "[[2, 0]]" 0 0]
    depth_calcul_pixel [of stereo_example "[[2, 0]]" 0 1]
  by (simp add: stereo_example_def depth_calcul_def)

text \<open>
  With a focal length of 0 the pixel of disparity 1 gets depth 0: the depth is zero at
  a pixel whose disparity is positive.
\<close>

theorem depth_calcul_zero_focal:
  "disparity stereo_zero_focal = Some [[1]] \<and>
   depth_calcul stereo_zero_focal = Inr (stereo_zero_focal\<lparr>depth := Some [[0]]\<rparr>)"
  by (simp add: depth_calcul_def stereo_zero_focal_def)

section \<open>Properties of process_frame\<close>







lemma nan_to_num_idem: "nan_to_num (nan_to_num d) = nan_to_num d"
  by (cases d) simp_all

lemma amplitude_threshold_idem:
  "amplitude_threshold (amplitude_threshold a) = amplitude_threshold a"
  by (cases a) simp_all




text \<open>
  C7, as the code has it. Calling \<open>process_frame\<close> again on the object it leaves (depth
  buffer cleaned, amplitude buffer thresholded) gives the same outcome and leaves the
  object as it is; and every pixel of a frame it returns is between 0 and 255.
\<close>

theorem process_frame_twice:
  "process_frame (snd (process_frame cam)) = process_frame cam \<and>
   (\<forall>frame. fst (process_frame cam) = Inr frame \<longrightarrow> (\<forall>v \<in> set frame. 0 \<le> uint v \<and> uint v \<le> 255))"
proof
  show "process_frame (snd (process_frame cam)) = process_frame cam"
    by (cases "depth_buf cam"; cases "amplitude_buf cam")
       (simp_all add: process_frame_def Let_def nan_to_num_idem amplitude_threshold_idem
          comp_def)
next
  have "uint v \<le> 255" for v :: "8 word"
    using uint_bounded [of v] by simp
  then show "\<forall>frame. fst (process_frame cam) = Inr frame \<longrightarrow>
               (\<forall>v \<in> set frame. 0 \<le> uint v \<and> uint v \<le> 255)"
    by simp
qed

theorem process_frame_twice_witness:
  "fst (process_frame tof_near) = Inr [255] \<and>
   process_frame (snd (process_frame tof_near)) = process_frame tof_near \<and>
   0 \<le> uint (255 :: 8 word) \<and> uint (255 :: 8 word) \<le> 255"
proof -
  have f: "fst (process_frame tof_near) = Inr [255]"
    by (simp add: process_frame_def tof_near_def normalize_depth_def np_bitwise_and_def
        trunc_toward_zero_def Let_def)
  with process_frame_twice [of tof_near] show ?thesis
    by simp
qed

text \<open>
  The frame returned for a pixel at distance 0 is 255; with that frame as the depth
  buffer, \<open>process_frame\<close> returns 0 for the pixel.
\<close>

theorem process_frame_on_its_frame:
  "fst (process_frame tof_near) = Inr [255] \<and>
   fst (process_frame ((snd (process_frame tof_near))\<lparr>depth_buf := Some [Float 255]\<rparr>)) = Inr [0]"
  by (simp add: process_frame_def tof_near_def normalize_depth_def np_bitwise_and_def
      trunc_toward_zero_def Let_def)



section \<open>Properties of the segmentation\<close>

lemma segment_mask_pixel:
  assumes "r < length img" and "c < length (img ! r)"
  shows "segment_mask img lo hi ! r ! c =
           (if lo \<le> uint (img ! r ! c) \<and> uint (img ! r ! c) \<le> hi then 255 else 0)"
  using assms by (simp add: segment_mask_def cv2_inRange_def)

lemma segment_pixel:
  assumes "r < length img" and "c < length (img ! r)"
  shows "segment img lo hi ! r ! c =
           (if lo \<le> uint (img ! r ! c) \<and> uint (img ! r ! c) \<le> hi then img ! r ! c else 0)"
  using assms
  by (simp add: segment_def segment_mask_def cv2_bitwise_and_def cv2_inRange_def)

text \<open>\<open>process_contour\<close> changes the contours and the mean amplitudes only.\<close>

lemma process_contour_keeps:
  assumes "process_contour lib p = Inr p'"
  shows "segmented_image p' = segmented_image p \<and> thresholds p' = thresholds p \<and>
         depth_map_normalized p' = depth_map_normalized p \<and> pixel_min p' = pixel_min p"
  using assms
  by (auto simp add: process_contour_def find_and_draw_contours_def Let_def
      split: option.splits)

lemma process_contour_returns:
  assumes "segmented_image p = Some seg"
  shows "\<exists>p'. process_contour lib p = Inr p'"
  using assms by (simp add: process_contour_def Let_def)

text \<open>
  The loop of \<open>process_disparity_image\<close> never raises, and after the pass for index
  \<open>i\<close> the attribute \<open>segmented_image\<close> holds the segment of the thresholds \<open>i\<close> and
  \<open>i + 1\<close>.
\<close>

lemma process_segments_last:
  "\<exists>p' out'. process_segments lib (js @ [i]) p out = Inr (p', out') \<and>
     segmented_image p' =
       Some (segment (depth_map_normalized p) (thresholds p ! i) (thresholds p ! (i + 1))) \<and>
     thresholds p' = thresholds p \<and> depth_map_normalized p' = depth_map_normalized p"
proof (induction js arbitrary: p out)
  case Nil
  let ?p1 = "p\<lparr>segmented_image :=
                  Some (segment (depth_map_normalized p) (thresholds p ! i)
                          (thresholds p ! (i + 1)))\<rparr>"
  show ?case
  proof (cases "count_non_zero_pixels_from_histogram
                  (calculate_histogram
                     (segment (depth_map_normalized p) (thresholds p ! i)
                        (thresholds p ! (i + 1)))) \<ge> pixel_min p")
    case True
    obtain p2 where p2: "process_contour lib ?p1 = Inr p2"
      using process_contour_returns [of ?p1] by auto
    from process_contour_keeps [OF p2] True p2 show ?thesis
      by (simp add: Let_def)
  next
    case False
    then show ?thesis
      by (simp add: Let_def)
  qed
next
  case (Cons j js)
  let ?p1 = "p\<lparr>segmented_image :=
                  Some (segment (depth_map_normalized p) (thresholds p ! j)
                          (thresholds p ! (j + 1)))\<rparr>"
  show ?case
  proof (cases "count_non_zero_pixels_from_histogram
                  (calculate_histogram
                     (segment (depth_map_normalized p) (thresholds p ! j)
                        (thresholds p ! (j + 1)))) \<ge> pixel_min p")
    case True
    obtain p2 where p2: "process_contour lib ?p1 = Inr p2"
      using process_contour_returns [of ?p1] by auto
    from process_contour_keeps [OF p2] Cons.IH [of p2] True p2 show ?thesis
      by (simp add: Let_def)
  next
    case False
    with Cons.IH [of ?p1] show ?thesis
      by (simp add: Let_def)
  qed
qed

lemma drop1_hist:
  "drop 1 (calculate_histogram img) =
     map (\<lambda>k. int (length (filter (\<lambda>v. unat v = k) (concat img)))) [1..<256]"
proof -
  have "[0..<256] = 0 # [1..<256]"
    by (simp add: upt_rec)
  then show ?thesis
    by (simp add: calculate_histogram_def)
qed

lemma count_one:
  "(\<Sum>k = 1..<256. if unat (x :: 8 word) = k then (1::int) else 0) = (if x \<noteq> 0 then 1 else 0)"
proof (cases "x = 0")
  case True
  then show ?thesis by simp
next
  case False
  then have "unat x \<noteq> 0"
    by (simp add: unat_eq_zero)
  moreover have "unat x < 256"
    using unsigned_less [of x, where ?'a = nat] by simp
  ultimately have m: "unat x \<in> {1..<256}"
    by simp
  have "(\<Sum>k = 1..<256. if unat x = k then (1::int) else 0) =
        (\<Sum>k \<in> {1..<256}. if k = unat x then 1 else 0)"
    by (intro sum.cong) auto
  also have "\<dots> = 1"
    using m by (simp only: sum.delta finite_atLeastLessThan if_True)
  finally show ?thesis
    using False by simp
qed

text \<open>
  The count \<open>process_disparity_image\<close> takes from the histogram is the number of
  non-zero pixels of the segment.
\<close>

lemma count_non_zero_pixels:
  "count_non_zero_pixels_from_histogram (calculate_histogram img) =
     int (length (filter (\<lambda>v. v \<noteq> 0) (concat img)))"
proof -
  have "(\<Sum>k = 1..<256. int (length (filter (\<lambda>v. unat v = k) xs))) =
          int (length (filter (\<lambda>v. v \<noteq> 0) xs))" for xs :: "8 word list"
  proof (induction xs)
    case Nil
    then show ?case by simp
  next
    case (Cons x xs)
    have "(\<Sum>k = 1..<256. int (length (filter (\<lambda>v. unat v = k) (x # xs)))) =
          (\<Sum>k = 1..<256. (if unat x = k then 1 else 0) + int (length (filter (\<lambda>v. unat v = k) xs)))"
      by (intro sum.cong) auto
    also have "\<dots> = (if x \<noteq> 0 then 1 else 0) + int (length (filter (\<lambda>v. v \<noteq> 0) xs))"
      by (simp only: sum.distrib count_one Cons.IH)
    finally show ?case by simp
  qed
  then show ?thesis
    unfolding count_non_zero_pixels_from_histogram_def drop1_hist
    by (simp only: interv_sum_list_conv_sum_set_nat set_upt)
qed

text \<open>
  C2, as the code has it. For each pair of adjacent thresholds \<open>(lower, upper)\<close> the loop
  of \<open>process_disparity_image\<close> produces the segment of the closed band: a pixel of the
  normalized map whose value \<open>v\<close> satisfies \<open>lower \<le> v \<le> upper\<close> is in the mask and keeps
  its value in the segment, every other pixel is outside the mask and 0 in the segment.
  A pixel whose value equals \<open>upper\<close> is included.
\<close>

theorem segment_closed_band:
  assumes "i + 1 < length (thresholds p)"
    and "r < length (depth_map_normalized p)" and "c < length (depth_map_normalized p ! r)"
    and "lower = thresholds p ! i" and "upper = thresholds p ! (i + 1)"
    and "v = depth_map_normalized p ! r ! c"
  shows "\<exists>p' out seg. process_segments lib [0..<Suc i] p [] = Inr (p', out) \<and>
           segmented_image p' = Some seg \<and>
           seg ! r ! c = (if lower \<le> uint v \<and> uint v \<le> upper then v else 0) \<and>
           segment_mask (depth_map_normalized p) lower upper ! r ! c =
             (if lower \<le> uint v \<and> uint v \<le> upper then 255 else 0)"
proof -
  have idx: "[0..<Suc i] = [0..<i] @ [i]"
    by simp
  from process_segments_last [of lib "[0..<i]" i p "[]"]
  obtain p' out' where run: "process_segments lib [0..<Suc i] p [] = Inr (p', out')"
    and seg: "segmented_image p' = Some (segment (depth_map_normalized p) lower upper)"
    unfolding idx using assms(4,5) by auto
  from segment_pixel [OF assms(2,3), of lower upper]
    segment_mask_pixel [OF assms(2,3), of lower upper] run seg assms(6)
  show ?thesis
    by simp
qed

theorem segment_closed_band_witness:
  "\<exists>p' out seg. process_segments rectangles [0..<Suc 1] blob_processor [] = Inr (p', out) \<and>
     segmented_image p' = Some seg \<and> seg ! 1 ! 1 = 180 \<and>
     segment_mask (depth_map_normalized blob_processor) 100 200 ! 1 ! 1 = 255"
proof -
  have h1: "1 + 1 < length (thresholds blob_processor)"
    and h2: "1 < length (depth_map_normalized blob_processor)"
    and h3: "1 < length (depth_map_normalized blob_processor ! 1)"
    and h4: "100 = thresholds blob_processor ! 1"
    and h5: "200 = thresholds blob_processor ! (1 + 1)"
    and h6: "180 = depth_map_normalized blob_processor ! 1 ! 1"
    by (simp_all add: blob_processor_def)
  have band: "(100::int) \<le> uint (180 :: 8 word) \<and> uint (180 :: 8 word) \<le> 200"
    by simp
  from segment_closed_band [OF h1 h2 h3 h4 h5 h6, of rectangles] band show ?thesis
    by (simp del: process_segments.simps)
qed

text \<open>
  With the thresholds 50, 100, 200, 255 a pixel of value 100 is in the segment of
  (50, 100), whose upper boundary it equals, and in the segment of (100, 200) as well:
  \<open>process_disparity_image\<close> reports one non-zero pixel for each of the two.
\<close>

theorem segment_includes_upper:
  "segment (depth_map_normalized boundary_processor) (thresholds boundary_processor ! 0)
     (thresholds boundary_processor ! 1) = [[100]] \<and>
   segment (depth_map_normalized boundary_processor) (thresholds boundary_processor ! 1)
     (thresholds boundary_processor ! 2) = [[100]] \<and>
   process_disparity_image rectangles boundary_processor =
     Inr (boundary_processor\<lparr>segmented_image := Some [[0]]\<rparr>,
          [Rejected 1 50 100 1, Rejected 2 100 200 1, Rejected 3 200 255 0])"
  by (simp add: process_disparity_image_def boundary_processor_def Let_def
      count_non_zero_pixels segment_def segment_mask_def cv2_inRange_def cv2_bitwise_and_def
      upt_rec)

section \<open>Properties of the mean amplitude\<close>

lemma row_masked:
  "map fst (filter (\<lambda>(v, m). m \<noteq> (0::8 word))
      (zip r (map (\<lambda>j. if P j then 255 else 0) [n..<n + length r]))) =
   map snd (filter (\<lambda>(j, v). P j) (enumerate n r))"
proof (induction r arbitrary: n)
  case Nil
  then show ?case by simp
next
  case (Cons x xs)
  have "[n..<n + length (x # xs)] = n # [Suc n..<Suc n + length xs]"
    by (simp add: upt_rec)
  with Cons.IH [of "Suc n"] show ?case by simp
qed

text \<open>The pixels under the mask of a contour are the pixels inside the filled contour.\<close>

lemma masked_contour_mask:
  "masked_values field (contour_mask lib field contour) = inside_values lib field contour"
proof -
  have "map (\<lambda>(r, rm). map fst (filter (\<lambda>(v, m). m \<noteq> (0::8 word)) (zip r rm)))
          (zip rows (map (\<lambda>(i, r). map (\<lambda>j. if filled lib contour i j then 255 else 0)
                                      [0..<length r]) (enumerate n rows))) =
        map (\<lambda>(i, r). map snd (filter (\<lambda>(j, v). filled lib contour i j) (enumerate 0 r)))
          (enumerate n rows)"
    for rows :: "real list list" and n
  proof (induction rows arbitrary: n)
    case Nil
    then show ?case by simp
  next
    case (Cons r rs)
    from row_masked [where P = "\<lambda>j. filled lib contour n j" and r = r and n = 0]
      Cons.IH [of "Suc n"]
    show ?case by simp
  qed
  then show ?thesis
    by (simp add: masked_values_def contour_mask_def inside_values_def)
qed

lemma fold_enumerate_amps:
  "fold (\<lambda>(i, c) amps. if P c then amps(i \<mapsto> f c) else amps) (enumerate n cs) m k =
     (if n \<le> k \<and> k < n + length cs \<and> P (cs ! (k - n)) then Some (f (cs ! (k - n)))
      else m k)"
proof (induction cs arbitrary: n m)
  case Nil
  then show ?case by auto
next
  case (Cons c cs)
  consider "k < n" | "k = n" | "n < k"
    by linarith
  then show ?case
  proof cases
    case 1
    then show ?thesis
      using Cons.IH [of "Suc n"] by simp
  next
    case 2
    then show ?thesis
      using Cons.IH [of "Suc n"] by simp
  next
    case 3
    then have "(c # cs) ! (k - n) = cs ! (k - Suc n)"
      by (simp add: nth_Cons')
    with 3 show ?thesis
      using Cons.IH [of "Suc n"] by auto
  qed
qed

text \<open>The dictionary of \<open>calculate_mean_amplitude\<close>, key by key.\<close>

lemma calculate_mean_amplitude_at:
  "calculate_mean_amplitude lib p cs i =
     (if i < length cs \<and> contourArea lib (cs ! i) \<ge> min_contour_area p
      then Some (cv2_mean (depth_map_original p)
                   (contour_mask lib (depth_map_original p) (cs ! i)))
      else None)"
  unfolding calculate_mean_amplitude_def
  using fold_enumerate_amps [of "\<lambda>c. contourArea lib c \<ge> min_contour_area p"
      "\<lambda>c. cv2_mean (depth_map_original p) (contour_mask lib (depth_map_original p) c)"
      0 cs Map.empty i]
  by simp

lemma cv2_mean_inside:
  "cv2_mean field (contour_mask lib field contour) =
     (if inside_values lib field contour = [] then 0
      else sum_list (inside_values lib field contour) /
           real (length (inside_values lib field contour)))"
  by (simp add: cv2_mean_def masked_contour_mask Let_def)

lemma calculate_mean_amplitude_contours:
  "calculate_mean_amplitude lib (p\<lparr>contours := cs'\<rparr>) cs = calculate_mean_amplitude lib p cs"
  by (rule ext) (simp add: calculate_mean_amplitude_at)

text \<open>
  C8. \<open>process_contour\<close> stores the contours found in the cleaned segment and the
  dictionary of \<open>calculate_mean_amplitude\<close>. For every contour whose area reaches
  \<open>min_contour_area\<close>, the value stored under its index is the arithmetic mean of the
  values of the original depth map at the pixels inside the filled contour.
\<close>

theorem mean_amplitude_is_mean:
  assumes "segmented_image p = Some seg"
    and "cs = find_contours lib (apply_morphological_operations lib p seg)"
    and "i < length cs" and "contourArea lib (cs ! i) \<ge> min_contour_area p"
    and "vs = inside_values lib (depth_map_original p) (cs ! i)"
  shows "\<exists>p' m. process_contour lib p = Inr p' \<and> contours p' = cs \<and>
           mean_amplitudes p' = calculate_mean_amplitude lib p cs \<and>
           mean_amplitudes p' i = Some m \<and> m * real (length vs) = sum_list vs \<and>
           (vs \<noteq> [] \<longrightarrow> m = sum_list vs / real (length vs))"
proof -
  let ?p1 = "p\<lparr>contours := cs\<rparr>"
  let ?amps = "calculate_mean_amplitude lib p cs"
  let ?p' = "?p1\<lparr>mean_amplitudes := ?amps\<rparr>"
  have run: "process_contour lib p = Inr ?p'"
    using assms(1,2)
    by (simp add: process_contour_def find_and_draw_contours_def Let_def
        calculate_mean_amplitude_contours)
  have at: "?amps i = Some (cv2_mean (depth_map_original p)
                              (contour_mask lib (depth_map_original p) (cs ! i)))"
    using assms(3,4) by (simp add: calculate_mean_amplitude_at)
  have m: "cv2_mean (depth_map_original p) (contour_mask lib (depth_map_original p) (cs ! i)) =
             (if vs = [] then 0 else sum_list vs / real (length vs))"
    unfolding assms(5) by (rule cv2_mean_inside)
  show ?thesis
    using run at m by simp
qed

theorem mean_amplitude_is_mean_witness:
  "segmented_image blob_processor =
     Some [[0, 0, 0, 0], [0, 180, 180, 0], [0, 180, 180, 0], [0, 0, 0, 0]] \<and>
   contourArea rectangles (1, 1, 3, 3) \<ge> min_contour_area blob_processor \<and>
   (\<exists>p'. process_contour rectangles blob_processor = Inr p' \<and>
          mean_amplitudes p' 0 = Some 180)"
proof -
  let ?seg = "[[0, 0, 0, 0], [0, 180, 180, 0], [0, 180, 180, 0], [0, 0, 0, 0]] :: 8 word list list"
  let ?cs = "[(1, 1, 3, 3)] :: (nat \<times> nat \<times> nat \<times> nat) list"
  let ?vs = "[180, 180, 180, 180] :: real list"
  have h1: "segmented_image blob_processor = Some ?seg"
    by (simp add: blob_processor_def)
  have h2: "?cs = find_contours rectangles
                    (apply_morphological_operations rectangles blob_processor ?seg)"
    by (simp add: rectangles_def)
  have h3: "0 < length ?cs"
    by simp
  have h4: "contourArea rectangles (?cs ! 0) \<ge> min_contour_area blob_processor"
    by (simp add: rectangles_def blob_processor_def)
  have h5: "?vs = inside_values rectangles (depth_map_original blob_processor) (?cs ! 0)"
    by (simp add: inside_values_def rectangles_def blob_processor_def)
  from mean_amplitude_is_mean [OF h1 h2 h3 h4 h5]
  obtain p' m where run: "process_contour rectangles blob_processor = Inr p'"
    and at: "mean_amplitudes p' 0 = Some m"
    and mean: "m * real (length ?vs) = sum_list ?vs"
    by (elim exE conjE)
  from mean have "m = 180"
    by simp
  with run at h1 h4 show ?thesis
    by simp
qed

section \<open>Runs of the capture and display processes\<close>

text \<open>
  C9. Three runs of the two processes from the initial state. In the first the producer
  has put three pairs and the consumer has shown them when the event is set; the consumer
  then finds the event set and the queue empty and returns, and the pair \<open>(None, None)\<close>
  that the producer puts afterwards stays in the queue. In the second the key \<open>q\<close> sets
  the event while the producer is inside a pass: the consumer returns at once, and the
  pair of frames of that pass and \<open>(None, None)\<close> stay in the queue. In the third the
  consumer gets the pair of frames and then \<open>(None, None)\<close>, on which it raises
  \<open>cv2.error\<close>.
\<close>

theorem display_returns_before_sentinel:
  "run schedule_drained pipeline_init =
     Some \<lparr>stop_event = True, queue = [Sentinel], producer = P_done, consumer = C_done,
            produced = 3, displayed = [0, 1, 2]\<rparr> \<and>
   run schedule_in_flight pipeline_init =
     Some \<lparr>stop_event = True, queue = [Frames 1, Sentinel], producer = P_done,
            consumer = C_done, produced = 2, displayed = [0]\<rparr> \<and>
   run schedule_producer_first pipeline_init =
     Some \<lparr>stop_event = True, queue = [], producer = P_done, consumer = C_raised Cv2Error,
            produced = 1, displayed = [0]\<rparr>"
  by (simp add: schedule_drained_def schedule_in_flight_def schedule_producer_first_def
      pipeline_init_def producer_step_def consumer_step_def)


section \<open>Properties of rectify\<close>

text \<open>\<open>rectify\<close> reads the four maps and nothing else.\<close>

lemma rectify_same_maps:
  assumes "undistortion_map c1 = undistortion_map c2"
    and "rectification_map c1 = rectification_map c2"
  shows "rectify remap c1 frames = rectify remap c2 frames"
  by (simp only: rectify_def assms)

lemma rectify_raises:
  "rectify remap c frames = Inl e \<longleftrightarrow>
     remap (fst frames) (left (undistortion_map c)) (left (rectification_map c)) = Inl e \<or>
     (\<exists>l. remap (fst frames) (left (undistortion_map c)) (left (rectification_map c)) = Inr l) \<and>
     remap (snd frames) (right (undistortion_map c)) (right (rectification_map c)) = Inl e"
  by (auto simp add: rectify_def split: sum.splits)

lemma rectify_returns:
  assumes "remap (fst frames) (left (undistortion_map c)) (left (rectification_map c)) = Inr l"
    and "remap (snd frames) (right (undistortion_map c)) (right (rectification_map c)) = Inr r"
  shows "rectify remap c frames = Inr [l, r]"
  using assms by (simp add: rectify_def)

text \<open>
  Loading from a folder that holds every file but \<open>rot_mat.npy\<close>: the missing file is
  reported, the loop goes on, \<open>rot_mat\<close> stays \<open>None\<close>.
\<close>

lemma load_without_rot_mat:
  assumes present: "\<And>sl. sl \<in> set (slots c0) \<Longrightarrow> sl \<noteq> (K_rot_mat, None) \<Longrightarrow>
                      files fs (slot_filename directory sl) = Some (NpyArray (val sl))"
    and missing: "files fs (slot_filename directory (K_rot_mat, None)) = None"
  shows "load_data directory fs StereoCalibration_init =
           (loaded_without_rot_mat val,
            [''File '' @ directory @ ''/rot_mat.npy not found.'',
             ''Data loading completed successfully.''])"
proof -
  have f: "files fs (slot_filename directory sl) = Some (NpyArray (val sl))"
    if "sl \<in> set [(K_cam_mats, Some Left), (K_cam_mats, Some Right), (K_dist_coefs, Some Left),
      (K_dist_coefs, Some Right), (K_trans_vec, None), (K_e_mat, None),
      (K_f_mat, None), (K_rect_trans, Some Left), (K_rect_trans, Some Right),
      (K_proj_mats, Some Left), (K_proj_mats, Some Right), (K_disp_to_depth_mat, None),
      (K_valid_boxes, Some Left), (K_valid_boxes, Some Right),
      (K_undistortion_map, Some Left), (K_undistortion_map, Some Right),
      (K_rectification_map, Some Left), (K_rectification_map, Some Right)]" for sl
    using that by (intro present) (auto simp add: slots_eq)
  have "load_slots fs directory (slots c0) StereoCalibration_init [] =
        (loaded_without_rot_mat val,
         [''File '' @ slot_filename directory (K_rot_mat, None) @ '' not found.'',
          ''Data loading completed successfully.''])"
    unfolding slots_eq
    by (simp del: slot_filename.simps
        add: f missing Let_def StereoCalibration_init_def no_sides_def loaded_without_rot_mat_def)
  then show ?thesis
    by (simp add: load_data_def slots_eq)
qed

lemma disk_without_rot_mat_files:
  assumes "sl \<in> set (slots c0)" and "sl \<noteq> (K_rot_mat, None)"
  shows "files disk_without_rot_mat (slot_filename ''data'' sl) =
           Some (NpyArray (the (slot_value example_calibration sl)))"
  using assms unfolding slots_eq
  apply (simp only: set_simps insert_iff empty_iff)
  apply (elim disjE FalseE)
  apply (simp_all add: disk_without_rot_mat_def slots_eq)
  done

lemma disk_without_rot_mat_missing:
  "files disk_without_rot_mat (slot_filename ''data'' (K_rot_mat, None)) = None"
  by (simp add: disk_without_rot_mat_def slots_eq)

text \<open>
  C1, as the code has it. \<open>rectify\<close> tests nothing and raises no error of its own: it
  hands each frame with the two maps of its side to \<open>cv2.remap\<close>, the left one first. Its
  outcome is the same for two objects with the same maps, whatever their other fields
  hold; it fails exactly when one of the two calls raises, with the exception of that
  call; when both return, it returns the two results. After a load from a folder missing
  only \<open>rot_mat.npy\<close>, the load completes with the line for the missing file, \<open>rot_mat\<close>
  stays unset and \<open>rectify\<close> gives what the two calls give on the maps read from the
  files.
\<close>

theorem rectify_is_two_remaps:
  assumes "\<And>sl. sl \<in> set (slots c0) \<Longrightarrow> sl \<noteq> (K_rot_mat, None) \<Longrightarrow>
             files fs (slot_filename directory sl) = Some (NpyArray (val sl))"
    and "files fs (slot_filename directory (K_rot_mat, None)) = None"
  shows "(undistortion_map c = undistortion_map c2 \<and>
          rectification_map c = rectification_map c2 \<longrightarrow>
            rectify remap c frames = rectify remap c2 frames) \<and>
         (\<forall>e. rectify remap c frames = Inl e \<longleftrightarrow>
            remap (fst frames) (left (undistortion_map c)) (left (rectification_map c)) = Inl e \<or>
            (\<exists>l. remap (fst frames) (left (undistortion_map c)) (left (rectification_map c)) =
                    Inr l) \<and>
            remap (snd frames) (right (undistortion_map c)) (right (rectification_map c)) =
              Inl e) \<and>
         (\<forall>l r. remap (fst frames) (left (undistortion_map c)) (left (rectification_map c)) =
                   Inr l \<and>
                 remap (snd frames) (right (undistortion_map c)) (right (rectification_map c)) =
                   Inr r \<longrightarrow>
                 rectify remap c frames = Inr [l, r]) \<and>
         (\<exists>c'. load_data directory fs StereoCalibration_init =
                  (c', [''File '' @ directory @ ''/rot_mat.npy not found.'',
                        ''Data loading completed successfully.'']) \<and>
               rot_mat c' = None \<and>
               rectify remap c' frames =
                 (case remap (fst frames) (Some (val (K_undistortion_map, Some Left)))
                         (Some (val (K_rectification_map, Some Left))) of
                    Inl e \<Rightarrow> Inl e
                  | Inr l \<Rightarrow>
                      (case remap (snd frames) (Some (val (K_undistortion_map, Some Right)))
                              (Some (val (K_rectification_map, Some Right))) of
                         Inl e \<Rightarrow> Inl e
                       | Inr r \<Rightarrow> Inr [l, r])))"
proof (intro conjI)
  show "undistortion_map c = undistortion_map c2 \<and>
        rectification_map c = rectification_map c2 \<longrightarrow>
          rectify remap c frames = rectify remap c2 frames"
    using rectify_same_maps [of c c2 remap frames] by blast
next
  show "\<forall>e. rectify remap c frames = Inl e \<longleftrightarrow>
            remap (fst frames) (left (undistortion_map c)) (left (rectification_map c)) = Inl e \<or>
            (\<exists>l. remap (fst frames) (left (undistortion_map c)) (left (rectification_map c)) =
                    Inr l) \<and>
            remap (snd frames) (right (undistortion_map c)) (right (rectification_map c)) =
              Inl e"
    by (simp add: rectify_raises)
next
  show "\<forall>l r. remap (fst frames) (left (undistortion_map c)) (left (rectification_map c)) =
                   Inr l \<and>
                 remap (snd frames) (right (undistortion_map c)) (right (rectification_map c)) =
                   Inr r \<longrightarrow>
                 rectify remap c frames = Inr [l, r]"
    by (simp add: rectify_returns)
next
  from load_without_rot_mat [of c0 fs directory val, OF assms]
  show "\<exists>c'. load_data directory fs StereoCalibration_init =
                  (c', [''File '' @ directory @ ''/rot_mat.npy not found.'',
                        ''Data loading completed successfully.'']) \<and>
               rot_mat c' = None \<and>
               rectify remap c' frames =
                 (case remap (fst frames) (Some (val (K_undistortion_map, Some Left)))
                         (Some (val (K_rectification_map, Some Left))) of
                    Inl e \<Rightarrow> Inl e
                  | Inr l \<Rightarrow>
                      (case remap (snd frames) (Some (val (K_undistortion_map, Some Right)))
                              (Some (val (K_rectification_map, Some Right))) of
                         Inl e \<Rightarrow> Inl e
                       | Inr r \<Rightarrow> Inr [l, r]))"
    by (intro exI [of _ "loaded_without_rot_mat val"])
       (simp add: loaded_without_rot_mat_def rectify_def cong: sum.case_cong)
qed

theorem rectify_is_two_remaps_witness:
  "files disk_without_rot_mat ''data/rot_mat.npy'' = None \<and>
   files disk_without_rot_mat ''data/undistortion_map_left.npy'' = Some (NpyArray [[Float 0]]) \<and>
   rectify nearest_remap StereoCalibration_init (Some [[Float 7]], Some [[Float 9]]) =
     Inl Cv2Error \<and>
   (\<exists>c'. load_data ''data'' disk_without_rot_mat StereoCalibration_init =
            (c', [''File data/rot_mat.npy not found.'',
                  ''Data loading completed successfully.'']) \<and>
          rot_mat c' = None \<and>
          rectify nearest_remap c' (Some [[Float 7]], Some [[Float 9]]) =
            Inr [[[Float 7]], [[Float 9]]])"
proof -
  have m: "files disk_without_rot_mat ''data/rot_mat.npy'' = None"
    using disk_without_rot_mat_missing by simp
  have u: "files disk_without_rot_mat ''data/undistortion_map_left.npy'' =
             Some (NpyArray [[Float 0]])"
    using disk_without_rot_mat_files [of "(K_undistortion_map, Some Left)" StereoCalibration_init]
    by (simp add: slots_eq example_calibration_def)
  have z: "round_half_even 0 = 0"
    by (simp add: round_half_even_def)
  have p: "files disk_without_rot_mat (slot_filename ''data'' sl) =
             Some (NpyArray (the (slot_value example_calibration sl)))"
    if "sl \<in> set (slots (StereoCalibration_init :: np_float list list StereoCalibration))"
      and "sl \<noteq> (K_rot_mat, None)" for sl
    using that by (rule disk_without_rot_mat_files)
  note t = rectify_is_two_remaps [of StereoCalibration_init disk_without_rot_mat "''data''"
      "\<lambda>sl. the (slot_value example_calibration sl)" StereoCalibration_init
      StereoCalibration_init nearest_remap "(Some [[Float 7]], Some [[Float 9]])",
      OF p disk_without_rot_mat_missing]
  have b: "rectify nearest_remap StereoCalibration_init (Some [[Float 7]], Some [[Float 9]]) =
             Inl Cv2Error"
    using t [THEN conjunct2, THEN conjunct1, THEN spec, of Cv2Error]
    by (simp add: nearest_remap_def StereoCalibration_init_def no_sides_def)
  have l: "\<exists>c'. load_data ''data'' disk_without_rot_mat StereoCalibration_init =
                 (c', [''File data/rot_mat.npy not found.'',
                       ''Data loading completed successfully.'']) \<and>
               rot_mat c' = None \<and>
               rectify nearest_remap c' (Some [[Float 7]], Some [[Float 9]]) =
                 Inr [[[Float 7]], [[Float 9]]]"
    using t [THEN conjunct2, THEN conjunct2, THEN conjunct2]
    by (simp add: example_calibration_def nearest_remap_def z)
  from m u b l show ?thesis
    by blast
qed

text \<open>
  After the load without \<open>rot_mat.npy\<close>, and on an object without camera matrices,
  \<open>rectify\<close> returns the remapped frames.
\<close>

theorem rectify_succeeds_without_rot_mat:
  "rot_mat (fst (load_data ''data'' disk_without_rot_mat StereoCalibration_init)) = None \<and>
   rectify nearest_remap (fst (load_data ''data'' disk_without_rot_mat StereoCalibration_init))
     (Some [[Float 7]], Some [[Float 9]]) = Inr [[[Float 7]], [[Float 9]]] \<and>
   rectify nearest_remap (example_calibration\<lparr>cam_mats := \<lparr>left = None, right = None\<rparr>\<rparr>)
     (Some [[Float 7]], Some [[Float 9]]) = Inr [[[Float 7]], [[Float 9]]]"
proof -
  have "load_data ''data'' disk_without_rot_mat StereoCalibration_init =
          (loaded_without_rot_mat (\<lambda>sl. the (slot_value example_calibration sl)),
           [''File data/rot_mat.npy not found.'', ''Data loading completed successfully.''])"
    using load_without_rot_mat [of StereoCalibration_init disk_without_rot_mat "''data''"
        "\<lambda>sl. the (slot_value example_calibration sl)",
        OF disk_without_rot_mat_files disk_without_rot_mat_missing]
    by simp
  moreover have "round_half_even 0 = 0"
    by (simp add: round_half_even_def)
  ultimately show ?thesis
    by (simp add: loaded_without_rot_mat_def rectify_def example_calibration_def
        nearest_remap_def)
qed

section \<open>Properties of the calibration run\<close>

lemma calibration_process_after_import:
  assumes "0 \<le> nbr_photo"
    and "import_pairs binding lib image_folder (nat nbr_photo) 0 cal fs = (Inr cal1, fs1)"
  shows "calibration_process binding lib cal nbr_photo image_folder fs =
           Some (case calibrate_camera lib cal1 of
                   Inl e \<Rightarrow> (Inl e, fs1)
                 | Inr calib \<Rightarrow> (Inr calib, snd (save_data binding calib fs1)))"
  using assms by (simp add: calibration_process_def)

lemma calibrate_camera_solve_raises:
  assumes "stereoCalibrate lib (object_points cal) (image_points_left cal)
             (image_points_right cal) (image_size cal) = Inl err"
  shows "calibrate_camera lib cal = Inl err"
  using assms by (simp add: calibrate_camera_def)

lemma calibrate_camera_returns:
  assumes "stereoCalibrate lib (object_points cal) (image_points_left cal)
             (image_points_right cal) (image_size cal) =
           Inr (cam_l, dist_l, cam_r, dist_r, r, t, e, f)"
    and "stereoRectify lib cam_l dist_l cam_r dist_r (image_size cal) r t =
           Inr (rect_l, rect_r, proj_l, proj_r, q, box_l, box_r)"
    and "initUndistortRectifyMap lib cam_l dist_l rect_l proj_l (image_size cal) =
           Inr (und_l, rec_l)"
    and "initUndistortRectifyMap lib cam_r dist_r rect_r proj_r (image_size cal) =
           Inr (und_r, rec_r)"
  shows "calibrate_camera lib cal =
           Inr \<lparr>cam_mats = \<lparr>left = Some cam_l, right = Some cam_r\<rparr>,
                dist_coefs = \<lparr>left = Some dist_l, right = Some dist_r\<rparr>,
                rot_mat = Some r, trans_vec = Some t, e_mat = Some e, f_mat = Some f,
                rect_trans = \<lparr>left = Some rect_l, right = Some rect_r\<rparr>,
                proj_mats = \<lparr>left = Some proj_l, right = Some proj_r\<rparr>,
                disp_to_depth_mat = Some q,
                valid_boxes = \<lparr>left = Some box_l, right = Some box_r\<rparr>,
                undistortion_map = \<lparr>left = Some und_l, right = Some und_r\<rparr>,
                rectification_map = \<lparr>left = Some rec_l, right = Some rec_r\<rparr>\<rparr>"
  using assms by (simp add: calibrate_camera_def)

text \<open>
  C5, as the code has it. \<open>calibrate_camera\<close> tests no residual, convergence or
  finiteness and raises no error of its own. Once the images are read,
  \<open>calibration_process\<close> fails when a primitive of \<open>calibrate_camera\<close> raises, with that
  exception and without a call of \<open>save_data\<close>: the disk stays as the reading of the
  images left it. When no primitive raises, the run returns an object that holds the
  results of the solve as the solve returned them, finite or not, after calling
  \<open>save_data\<close> on it. This holds whatever the name \<open>file_create\<close> is bound to.
\<close>

theorem calibration_process_unchecked:
  assumes "0 \<le> nbr_photo"
    and "import_pairs binding lib image_folder (nat nbr_photo) 0 cal fs = (Inr cal1, fs1)"
    and "solve = stereoCalibrate lib (object_points cal1) (image_points_left cal1)
                   (image_points_right cal1) (image_size cal1)"
  shows "(\<forall>err. solve = Inl err \<longrightarrow>
            calibration_process binding lib cal nbr_photo image_folder fs =
              Some (Inl err, fs1)) \<and>
         (\<forall>err. calibrate_camera lib cal1 = Inl err \<longrightarrow>
            calibration_process binding lib cal nbr_photo image_folder fs =
              Some (Inl err, fs1)) \<and>
         (\<forall>cam_l dist_l cam_r dist_r r t e f rect_l rect_r proj_l proj_r q box_l box_r
            und_l rec_l und_r rec_r.
            solve = Inr (cam_l, dist_l, cam_r, dist_r, r, t, e, f) \<and>
            stereoRectify lib cam_l dist_l cam_r dist_r (image_size cal1) r t =
              Inr (rect_l, rect_r, proj_l, proj_r, q, box_l, box_r) \<and>
            initUndistortRectifyMap lib cam_l dist_l rect_l proj_l (image_size cal1) =
              Inr (und_l, rec_l) \<and>
            initUndistortRectifyMap lib cam_r dist_r rect_r proj_r (image_size cal1) =
              Inr (und_r, rec_r) \<longrightarrow>
            (\<exists>calib. calibration_process binding lib cal nbr_photo image_folder fs =
                        Some (Inr calib, snd (save_data binding calib fs1)) \<and>
                      cam_mats calib = \<lparr>left = Some cam_l, right = Some cam_r\<rparr> \<and>
                      rot_mat calib = Some r \<and> trans_vec calib = Some t \<and>
                      e_mat calib = Some e \<and> f_mat calib = Some f))"
proof (intro conjI allI impI)
  fix err
  assume "solve = Inl err"
  with assms(3) have "calibrate_camera lib cal1 = Inl err"
    by (simp add: calibrate_camera_solve_raises)
  with calibration_process_after_import [OF assms(1,2)]
  show "calibration_process binding lib cal nbr_photo image_folder fs = Some (Inl err, fs1)"
    by simp
next
  fix err
  assume "calibrate_camera lib cal1 = Inl err"
  with calibration_process_after_import [OF assms(1,2)]
  show "calibration_process binding lib cal nbr_photo image_folder fs = Some (Inl err, fs1)"
    by simp
next
  fix cam_l dist_l cam_r dist_r r t e f rect_l rect_r proj_l proj_r q box_l box_r
    und_l rec_l und_r rec_r
  assume a: "solve = Inr (cam_l, dist_l, cam_r, dist_r, r, t, e, f) \<and>
            stereoRectify lib cam_l dist_l cam_r dist_r (image_size cal1) r t =
              Inr (rect_l, rect_r, proj_l, proj_r, q, box_l, box_r) \<and>
            initUndistortRectifyMap lib cam_l dist_l rect_l proj_l (image_size cal1) =
              Inr (und_l, rec_l) \<and>
            initUndistortRectifyMap lib cam_r dist_r rect_r proj_r (image_size cal1) =
              Inr (und_r, rec_r)"
  let ?calib = "\<lparr>cam_mats = \<lparr>left = Some cam_l, right = Some cam_r\<rparr>,
                dist_coefs = \<lparr>left = Some dist_l, right = Some dist_r\<rparr>,
                rot_mat = Some r, trans_vec = Some t, e_mat = Some e, f_mat = Some f,
                rect_trans = \<lparr>left = Some rect_l, right = Some rect_r\<rparr>,
                proj_mats = \<lparr>left = Some proj_l, right = Some proj_r\<rparr>,
                disp_to_depth_mat = Some q,
                valid_boxes = \<lparr>left = Some box_l, right = Some box_r\<rparr>,
                undistortion_map = \<lparr>left = Some und_l, right = Some und_r\<rparr>,
                rectification_map = \<lparr>left = Some rec_l, right = Some rec_r\<rparr>\<rparr>"
  from a assms(3) have c: "calibrate_camera lib cal1 = Inr ?calib"
    by (intro calibrate_camera_returns) simp_all
  from calibration_process_after_import [OF assms(1,2)] c
  show "\<exists>calib. calibration_process binding lib cal nbr_photo image_folder fs =
                        Some (Inr calib, snd (save_data binding calib fs1)) \<and>
                      cam_mats calib = \<lparr>left = Some cam_l, right = Some cam_r\<rparr> \<and>
                      rot_mat calib = Some r \<and> trans_vec calib = Some t \<and>
                      e_mat calib = Some e \<and> f_mat calib = Some f"
    by (intro exI [of _ ?calib]) simp
qed

text \<open>
  With the name \<open>file_create\<close> unbound and no photo on the disk, the loop over the
  photos calls nothing and leaves calibrator and disk as they are.
\<close>

lemma import_without_photos:
  "import_pairs None lib ''image'' (nat 1) 0 calibrator_with_points empty_disk =
     (Inr calibrator_with_points, empty_disk)"
  by (simp add: isfile_def empty_disk_def Let_def)

lemma solve_with_points:
  "stereoCalibrate nan_rotation_cv2 (object_points calibrator_with_points)
     (image_points_left calibrator_with_points) (image_points_right calibrator_with_points)
     (image_size calibrator_with_points) =
   Inr (identity_matrix, [[Float 0]], identity_matrix, [[Float 0]], nan_matrix,
        [[Float 1], [Float 0], [Float 0]], identity_matrix, identity_matrix)"
  by (simp add: nan_rotation_cv2_def calibrator_with_points_def example_calibrator_def)

theorem calibration_process_unchecked_witness:
  "(0::int) \<le> 1 \<and>
   (\<exists>calib fs'. calibration_process None nan_rotation_cv2 calibrator_with_points 1 ''image''
                  empty_disk = Some (Inr calib, fs') \<and>
                rot_mat calib = Some nan_matrix) \<and>
   calibration_process None failing_cv2 calibrator_with_points 1 ''image'' empty_disk =
     Some (Inl Cv2Error, empty_disk)"
proof -
  have n: "(0::int) \<le> 1"
    by simp
  have "\<exists>calib. calibration_process None nan_rotation_cv2 calibrator_with_points 1 ''image''
                  empty_disk = Some (Inr calib, snd (save_data None calib empty_disk)) \<and>
                rot_mat calib = Some nan_matrix"
    using calibration_process_unchecked [OF n import_without_photos refl,
        of nan_rotation_cv2, THEN conjunct2, THEN conjunct2,
        THEN spec, THEN spec, THEN spec, THEN spec, THEN spec, THEN spec, THEN spec,
        THEN spec, THEN spec, THEN spec, THEN spec, THEN spec, THEN spec, THEN spec,
        THEN spec, THEN spec, THEN spec, THEN spec, THEN spec,
        of identity_matrix "[[Float 0]]" identity_matrix "[[Float 0]]" nan_matrix
          "[[Float 1], [Float 0], [Float 0]]" identity_matrix identity_matrix
          identity_matrix identity_matrix identity_matrix identity_matrix identity_matrix
          "[[Float 0]]" "[[Float 0]]" "[[Float 0]]" "[[Float 0]]" "[[Float 0]]" "[[Float 0]]"]
      solve_with_points
    by (auto simp add: nan_rotation_cv2_def)
  then have ok: "\<exists>calib fs'. calibration_process None nan_rotation_cv2 calibrator_with_points 1
                               ''image'' empty_disk = Some (Inr calib, fs') \<and>
                             rot_mat calib = Some nan_matrix"
    by blast
  have "calibration_process None failing_cv2 calibrator_with_points 1 ''image'' empty_disk =
          Some (Inl Cv2Error, empty_disk)"
    using calibration_process_unchecked [OF n import_without_photos refl, of failing_cv2,
        THEN conjunct1, THEN spec, of Cv2Error]
    by (simp add: failing_cv2_def nan_rotation_cv2_def)
  with ok n show ?thesis
    by blast
qed

text \<open>
  A solve that returns a rotation matrix of NaN: \<open>calibrate_camera\<close> returns an object
  holding it, and the run returns that object.
\<close>

theorem nan_rotation_is_returned:
  "(case calibrate_camera nan_rotation_cv2 calibrator_with_points of
      Inr calib \<Rightarrow> rot_mat calib = Some nan_matrix
    | Inl e \<Rightarrow> False) \<and>
   (case calibration_process (file_create no_csv) nan_rotation_cv2 calibrator_with_points 1
           ''image'' empty_disk of
      Some (Inr calib, fs') \<Rightarrow> rot_mat calib = Some nan_matrix
    | _ \<Rightarrow> False)"
proof -
  have c: "\<exists>calib. calibrate_camera nan_rotation_cv2 calibrator_with_points = Inr calib \<and>
                   rot_mat calib = Some nan_matrix"
    using solve_with_points
    by (simp add: calibrate_camera_def nan_rotation_cv2_def)
  then obtain calib
    where k: "calibrate_camera nan_rotation_cv2 calibrator_with_points = Inr calib"
      and r: "rot_mat calib = Some nan_matrix"
    by blast
  from calibration_process_after_import [OF _ import_without_photos, of nan_rotation_cv2] k r
  show ?thesis
    by (simp add: file_create_unbound)
qed

end
